theory Spec2Isabelle
  imports Main "HOL-Library.Multiset"
begin

section \<open>Data model of server.js\<close>

text \<open>
  The server is an Express application over four Mongoose collections and one upload
  directory. Each route handler is embedded as a function from the state of the world to
  a reply and the next state. Everything the handlers do beyond computing a value is
  explicit: the collections, the files of the upload directory, the clock read by
  \<^verbatim>\<open>Date.now()\<close>, the ObjectId given to a new document, the timers awaited, and the
  failures of storage and file-system calls.

  Documents are records. Numbers that the code only counts with are \<open>int\<close>; instants
  are milliseconds as \<open>nat\<close>; an ObjectId is a \<open>nat\<close>. The Vietnamese message
  literals of the source are written without their diacritics, since strings here are
  ASCII; distinct literals stay distinct.
\<close>

datatype json =
    JNull
  | JBool bool
  | JNum int
  | JStr string
  | JDate nat
  | JId nat
  | JArr "json list"
  | JObj "(string \<times> json) list"

text \<open>\<^verbatim>\<open>VisitorCounterSchema\<close> and \<^verbatim>\<open>QuestionRequestCounterSchema\<close>: the same two fields.\<close>

record counter =
  oid :: nat
  count :: int
  lastUpdated :: nat

text \<open>
  \<^verbatim>\<open>ChatDataSchema\<close>. A stored document may lack \<^verbatim>\<open>questionCount\<close> (the handler of
  the total guards against it with \<^verbatim>\<open>|| 0\<close>), hence the option.
\<close>

record chat =
  cid :: nat
  title :: string
  content :: string
  date :: string
  questionCount :: "int option"
  createdAt :: nat

text \<open>\<^verbatim>\<open>CarouselImageSchema\<close>.\<close>

record image =
  iid :: nat
  ititle :: string
  imageUrl :: string
  alt :: string
  order :: int
  icreatedAt :: nat

text \<open>
  The world. \<open>failures\<close> is the schedule of outcomes of the storage and file-system
  calls still to come, one entry per call in the order the calls are made: \<open>None\<close> lets
  the call succeed, \<open>Some m\<close> makes it throw an error with message \<open>m\<close> (a timeout of
  \<^verbatim>\<open>maxTimeMS\<close>, a lost connection, a rejected id, a full disk). An exhausted schedule
  means no further failure. \<open>timers\<close> records each \<^verbatim>\<open>setTimeout\<close> delay awaited.
\<close>

record world =
  readyState :: nat
  visitorCounters :: "counter list"
  questionRequestCounters :: "counter list"
  chatData :: "chat list"
  carouselImages :: "image list"
  uploads :: "(string \<times> nat list) list"
  clock :: nat
  next_oid :: nat
  failures :: "string option list"
  timers :: "nat list"

definition pop_failure :: "world \<Rightarrow> string option \<times> world" where
  "pop_failure w =
     (case failures w of
        [] \<Rightarrow> (None, w)
      | f # fs \<Rightarrow> (f, w\<lparr>failures := fs\<rparr>))"

definition setTimeout :: "nat \<Rightarrow> world \<Rightarrow> world" where
  "setTimeout ms w = w\<lparr>clock := clock w + ms, timers := timers w @ [ms]\<rparr>"

fun field :: "string \<Rightarrow> json \<Rightarrow> json option" where
  "field k (JObj kvs) = map_of kvs k"
| "field k _ = None"

text \<open>
  What a request ends with: \<^verbatim>\<open>res.status(n).json(b)\<close>; a file sent; a status without a
  JSON body (the 204 of a CORS preflight, a redirect); an error handed to \<^verbatim>\<open>next\<close> (no
  handler of server.js sees it), either a plain \<^verbatim>\<open>Error\<close> or one that carries a status
  of its own, as the errors of body-parser and of \<^verbatim>\<open>res.sendFile\<close> do; no matching
  route; or a handler that returns without replying.
\<close>

datatype reply =
    Json nat json
  | File string
  | Bare nat
  | NextErr string
  | HttpError nat string
  | NotRouted
  | NoReply

section \<open>Counter routes\<close>

datatype kind = Visitor | QuestionRequest

datatype cop = Get | Increment | Reset

definition collection :: "kind \<Rightarrow> world \<Rightarrow> counter list" where
  "collection k w = (case k of Visitor \<Rightarrow> visitorCounters w | QuestionRequest \<Rightarrow> questionRequestCounters w)"

definition set_collection :: "kind \<Rightarrow> counter list \<Rightarrow> world \<Rightarrow> world" where
  "set_collection k ds w =
     (case k of
        Visitor \<Rightarrow> w\<lparr>visitorCounters := ds\<rparr>
      | QuestionRequest \<Rightarrow> w\<lparr>questionRequestCounters := ds\<rparr>)"

text \<open>\<^verbatim>\<open>Model.findOne()\<close>: the first document of the collection, or null.\<close>

definition findOne :: "kind \<Rightarrow> world \<Rightarrow> (string + counter option) \<times> world" where
  "findOne k w =
     (case pop_failure w of
        (Some e, w') \<Rightarrow> (Inl e, w')
      | (None, w') \<Rightarrow>
          (Inr (case collection k w' of [] \<Rightarrow> None | d # _ \<Rightarrow> Some d), w'))"

text \<open>
  \<^verbatim>\<open>new Model({ count: c })\<close>: a fresh id, and \<^verbatim>\<open>lastUpdated\<close> from its default
  \<^verbatim>\<open>Date.now\<close>.
\<close>

definition new_counter :: "int \<Rightarrow> world \<Rightarrow> counter \<times> world" where
  "new_counter c w =
     (\<lparr>oid = next_oid w, count = c, lastUpdated = clock w\<rparr>, w\<lparr>next_oid := next_oid w + 1\<rparr>)"

text \<open>
  \<^verbatim>\<open>doc.save()\<close>: a document made by \<^verbatim>\<open>new\<close> is inserted, a document that was found
  is written back under its id. A failed save writes nothing.
\<close>

fun write_back :: "counter \<Rightarrow> counter list \<Rightarrow> counter list" where
  "write_back d [] = []"
| "write_back d (x # xs) = (if oid x = oid d then d # xs else x # write_back d xs)"

definition save_counter :: "kind \<Rightarrow> bool \<Rightarrow> counter \<Rightarrow> world \<Rightarrow> (string + unit) \<times> world" where
  "save_counter k isNew d w =
     (case pop_failure w of
        (Some e, w') \<Rightarrow> (Inl e, w')
      | (None, w') \<Rightarrow>
          (Inr (),
           set_collection k
             (if isNew then collection k w' @ [d] else write_back d (collection k w')) w'))"

definition count_body :: "counter \<Rightarrow> json" where
  "count_body d =
     JObj [(''success'', JBool True), (''count'', JNum (count d)),
           (''lastUpdated'', JDate (lastUpdated d))]"

definition reset_message :: "kind \<Rightarrow> string" where
  "reset_message k =
     (case k of
        Visitor \<Rightarrow> ''Da reset so luot truy cap ve 0''
      | QuestionRequest \<Rightarrow> ''Da reset so luong cau hoi ve 0'')"

definition reset_body :: "kind \<Rightarrow> counter \<Rightarrow> json" where
  "reset_body k d =
     JObj [(''success'', JBool True), (''message'', JStr (reset_message k)),
           (''count'', JNum (count d))]"

text \<open>
  The body of the \<^verbatim>\<open>try\<close> block of each handler: one attempt. \<open>Inl\<close> is the message of
  the error thrown, \<open>Inr\<close> the body passed to \<^verbatim>\<open>res.json\<close>.
\<close>

definition increment_attempt :: "kind \<Rightarrow> world \<Rightarrow> (string + json) \<times> world" where
  "increment_attempt k w =
     (case findOne k w of
        (Inl e, w1) \<Rightarrow> (Inl e, w1)
      | (Inr None, w1) \<Rightarrow>
          (case new_counter 1 w1 of
             (d, w2) \<Rightarrow>
               (case save_counter k True d w2 of
                  (Inl e, w3) \<Rightarrow> (Inl e, w3)
                | (Inr _, w3) \<Rightarrow> (Inr (count_body d), w3)))
      | (Inr (Some c), w1) \<Rightarrow>
          (let d = c\<lparr>count := count c + 1, lastUpdated := clock w1\<rparr> in
           case save_counter k False d w1 of
             (Inl e, w3) \<Rightarrow> (Inl e, w3)
           | (Inr _, w3) \<Rightarrow> (Inr (count_body d), w3)))"

definition get_attempt :: "kind \<Rightarrow> world \<Rightarrow> (string + json) \<times> world" where
  "get_attempt k w =
     (case findOne k w of
        (Inl e, w1) \<Rightarrow> (Inl e, w1)
      | (Inr None, w1) \<Rightarrow>
          (case new_counter 0 w1 of
             (d, w2) \<Rightarrow>
               (case save_counter k True d w2 of
                  (Inl e, w3) \<Rightarrow> (Inl e, w3)
                | (Inr _, w3) \<Rightarrow> (Inr (count_body d), w3)))
      | (Inr (Some c), w1) \<Rightarrow> (Inr (count_body c), w1))"

definition reset_attempt :: "kind \<Rightarrow> world \<Rightarrow> (string + json) \<times> world" where
  "reset_attempt k w =
     (case findOne k w of
        (Inl e, w1) \<Rightarrow> (Inl e, w1)
      | (Inr None, w1) \<Rightarrow>
          (case new_counter 0 w1 of
             (d, w2) \<Rightarrow>
               (case save_counter k True d w2 of
                  (Inl e, w3) \<Rightarrow> (Inl e, w3)
                | (Inr _, w3) \<Rightarrow> (Inr (reset_body k d), w3)))
      | (Inr (Some c), w1) \<Rightarrow>
          (let d = c\<lparr>count := 0, lastUpdated := clock w1\<rparr> in
           case save_counter k False d w1 of
             (Inl e, w3) \<Rightarrow> (Inl e, w3)
           | (Inr _, w3) \<Rightarrow> (Inr (reset_body k d), w3)))"

definition counter_attempt :: "kind \<Rightarrow> cop \<Rightarrow> world \<Rightarrow> (string + json) \<times> world" where
  "counter_attempt k c =
     (case c of
        Get \<Rightarrow> get_attempt k
      | Increment \<Rightarrow> increment_attempt k
      | Reset \<Rightarrow> reset_attempt k)"

text \<open>The \<^verbatim>\<open>error\<close> text of the 500 reply of each of the six handlers.\<close>

definition counter_error :: "kind \<Rightarrow> cop \<Rightarrow> string" where
  "counter_error k c =
     (case (k, c) of
        (Visitor, Increment) \<Rightarrow> ''Khong the cap nhat so luot truy cap''
      | (Visitor, Get) \<Rightarrow> ''Khong the lay so luot truy cap''
      | (Visitor, Reset) \<Rightarrow> ''Khong the reset so luot truy cap''
      | (QuestionRequest, Increment) \<Rightarrow> ''Khong the cap nhat so luong cau hoi''
      | (QuestionRequest, Get) \<Rightarrow> ''Khong the lay so luong cau hoi''
      | (QuestionRequest, Reset) \<Rightarrow> ''Khong the reset so luong cau hoi'')"

definition error500 :: "string \<Rightarrow> string \<Rightarrow> json" where
  "error500 msg details =
     JObj [(''success'', JBool False), (''error'', JStr msg), (''details'', JStr details)]"

text \<open>
  The loop shared by the six handlers:
  \<^verbatim>\<open>while (retries > 0) { try { ...; return res.json(..) } catch (err) { retries--;
  if (retries === 0) return res.status(500).json(..); await <1000 ms> } }\<close>.
  The argument \<open>Suc n\<close> is a positive \<^verbatim>\<open>retries\<close> and \<open>n\<close> its value after
  \<^verbatim>\<open>retries--\<close>; at \<open>0\<close> the loop condition is false and the handler ends without a
  reply.
\<close>

fun retry_loop :: "(world \<Rightarrow> (string + json) \<times> world) \<Rightarrow> string \<Rightarrow> nat \<Rightarrow> world \<Rightarrow> reply \<times> world" where
  "retry_loop body msg 0 w = (NoReply, w)"
| "retry_loop body msg (Suc n) w =
     (case body w of
        (Inr ok, w') \<Rightarrow> (Json 200 ok, w')
      | (Inl err, w') \<Rightarrow>
          (if n = 0 then (Json 500 (error500 msg err), w')
           else retry_loop body msg n (setTimeout 1000 w')))"

text \<open>Each handler starts with \<^verbatim>\<open>let retries = 2\<close>.\<close>

definition counter_route :: "kind \<Rightarrow> cop \<Rightarrow> world \<Rightarrow> reply \<times> world" where
  "counter_route k c w = retry_loop (counter_attempt k c) (counter_error k c) 2 w"

text \<open>\<^verbatim>\<open>initializeVisitorCounter\<close> and \<^verbatim>\<open>initializeQuestionRequestCounter\<close>.\<close>

definition initializeCounter :: "kind \<Rightarrow> world \<Rightarrow> world" where
  "initializeCounter k w =
     (case findOne k w of
        (Inl e, w1) \<Rightarrow> w1
      | (Inr (Some c), w1) \<Rightarrow> w1
      | (Inr None, w1) \<Rightarrow>
          (case new_counter 0 w1 of
             (d, w2) \<Rightarrow> snd (save_counter k True d w2)))"

section \<open>Chat record routes\<close>

text \<open>
  The URL of a request, by the route pattern it matches. An \<^verbatim>\<open>:id\<close> parameter is the
  URL segment as sent, any string.

  What the handlers take from outside the repository is gathered in \<open>env\<close>: the
  rendering of an instant by \<^verbatim>\<open>toLocaleString('vi-VN')\<close>; the bytes that
  \<^verbatim>\<open>Buffer.from(s, 'base64')\<close> decodes; Mongoose's cast of an id string to an ObjectId,
  \<open>None\<close> for a string that is no ObjectId; what \<^verbatim>\<open>express.static(__dirname)\<close> answers
  to a GET or HEAD of a URL (a file, a redirect for a directory), \<open>None\<close> when it passes
  the request on; and whether a file that \<^verbatim>\<open>res.sendFile\<close> is asked for exists.
\<close>

datatype resource =
    ApiVisitor
  | ApiVisitorReset
  | ApiQuestionsRequest
  | ApiQuestionsRequestReset
  | ApiData
  | ApiDataIdIncrement string
  | ApiQuestionsTotalCount
  | ApiDataId string
  | ApiCarousel
  | ApiCarouselUpload
  | ApiCarouselUploadBase64
  | ApiCarouselId string
  | Admin
  | Root
  | Uploads string
  | Other string

record env =
  toLocaleString :: "nat \<Rightarrow> string"
  fromBase64 :: "string \<Rightarrow> nat list"
  castObjectId :: "string \<Rightarrow> nat option"
  static_reply :: "resource \<Rightarrow> reply option"
  has_file :: "string \<Rightarrow> bool"

text \<open>
  The message of the \<^verbatim>\<open>CastError\<close> that a query by id throws for a string that is no
  ObjectId, abridged from Mongoose's. It is thrown while the query is prepared: no
  storage call is made.
\<close>

definition cast_error :: "string \<Rightarrow> string \<Rightarrow> string" where
  "cast_error model s =
     ''Cast to ObjectId failed for value '' @ s @ '' at path _id for model '' @ model"

text \<open>JavaScript's \<^verbatim>\<open>x || d\<close> on an optional string and on an optional number.\<close>

definition or_str :: "string option \<Rightarrow> string \<Rightarrow> string" where
  "or_str s d = (case s of None \<Rightarrow> d | Some v \<Rightarrow> if v = [] then d else v)"

definition or_num :: "int option \<Rightarrow> int \<Rightarrow> int" where
  "or_num n d = (case n of None \<Rightarrow> d | Some v \<Rightarrow> if v = 0 then d else v)"

text \<open>
  \<^verbatim>\<open>ChatData.find().sort({ createdAt: -1 })\<close>: all documents, latest first. Documents
  created at the same instant keep their stored order.
\<close>

definition newest_first :: "chat list \<Rightarrow> chat list" where
  "newest_first cs = sort_key (\<lambda>c. - int (createdAt c)) cs"

definition format_chat :: "chat \<Rightarrow> json" where
  "format_chat item =
     JObj [(''id'', JId (cid item)), (''title'', JStr (title item)),
           (''content'', JStr (content item)), (''date'', JStr (date item))]"

definition get_api_data :: "world \<Rightarrow> reply \<times> world" where
  "get_api_data w =
     (case pop_failure w of
        (Some e, w') \<Rightarrow>
          (Json 500 (JObj [(''error'', JStr ''Khong the lay du lieu''), (''details'', JStr e)]), w')
      | (None, w') \<Rightarrow> (Json 200 (JArr (map format_chat (newest_first (chatData w')))), w'))"

text \<open>
  \<^verbatim>\<open>new ChatData({ title, content })\<close> and \<^verbatim>\<open>save()\<close>. Both paths are required:
  validation rejects a missing or empty one before anything is sent to storage. The
  message is Mongoose's, abridged to the model name and the paths.
\<close>

definition chat_validation :: "string \<Rightarrow> string \<Rightarrow> string option" where
  "chat_validation t c =
     (if t = [] \<and> c = [] then Some ''ChatData validation failed: title, content''
      else if t = [] then Some ''ChatData validation failed: title''
      else if c = [] then Some ''ChatData validation failed: content''
      else None)"

definition post_api_data :: "env \<Rightarrow> string option \<Rightarrow> string option \<Rightarrow> world \<Rightarrow> reply \<times> world" where
  "post_api_data E t c w =
     (let newData = \<lparr>cid = next_oid w, title = or_str t [], content = or_str c [],
                      date = toLocaleString E (clock w), questionCount = Some 0,
                      createdAt = clock w\<rparr>;
          w1 = w\<lparr>next_oid := next_oid w + 1\<rparr>
      in case chat_validation (title newData) (content newData) of
           Some e \<Rightarrow> (Json 400 (JObj [(''error'', JStr e)]), w1)
         | None \<Rightarrow>
             (case pop_failure w1 of
                (Some e, w2) \<Rightarrow> (Json 400 (JObj [(''error'', JStr e)]), w2)
              | (None, w2) \<Rightarrow>
                  (Json 200 (format_chat newData), w2\<lparr>chatData := chatData w2 @ [newData]\<rparr>)))"

text \<open>
  \<^verbatim>\<open>ChatData.findByIdAndUpdate(id, { $inc: { questionCount: 1 } }, { new: true })\<close>:
  the first document with the id gets its \<^verbatim>\<open>questionCount\<close> raised by one (an absent
  field counts from 0) and is returned as updated; null when no document has the id.
\<close>

definition inc_questionCount :: "chat \<Rightarrow> chat" where
  "inc_questionCount c =
     c\<lparr>questionCount := Some ((case questionCount c of None \<Rightarrow> 0 | Some n \<Rightarrow> n) + 1)\<rparr>"

fun inc_first :: "nat \<Rightarrow> chat list \<Rightarrow> chat list" where
  "inc_first i [] = []"
| "inc_first i (c # cs) = (if cid c = i then inc_questionCount c # cs else c # inc_first i cs)"

definition findByIdAndUpdate_inc ::
  "env \<Rightarrow> string \<Rightarrow> world \<Rightarrow> (string + chat option) \<times> world" where
  "findByIdAndUpdate_inc E s w =
     (case castObjectId E s of
        None \<Rightarrow> (Inl (cast_error ''ChatData'' s), w)
      | Some i \<Rightarrow>
          (case pop_failure w of
             (Some e, w') \<Rightarrow> (Inl e, w')
           | (None, w') \<Rightarrow>
               (case find (\<lambda>c. cid c = i) (chatData w') of
                  None \<Rightarrow> (Inr None, w')
                | Some c \<Rightarrow>
                    (Inr (Some (inc_questionCount c)),
                     w'\<lparr>chatData := inc_first i (chatData w')\<rparr>))))"

definition json_count :: "int option \<Rightarrow> json" where
  "json_count n = (case n of None \<Rightarrow> JNull | Some v \<Rightarrow> JNum v)"

definition post_api_data_increment :: "env \<Rightarrow> string \<Rightarrow> world \<Rightarrow> reply \<times> world" where
  "post_api_data_increment E s w =
     (case findByIdAndUpdate_inc E s w of
        (Inl e, w') \<Rightarrow> (Json 500 (JObj [(''error'', JStr e)]), w')
      | (Inr None, w') \<Rightarrow> (Json 404 (JObj [(''error'', JStr ''Question not found'')]), w')
      | (Inr (Some data), w') \<Rightarrow>
          (Json 200 (JObj [(''success'', JBool True), (''id'', JId (cid data)),
                           (''title'', JStr (title data)),
                           (''questionCount'', json_count (questionCount data))]), w'))"

text \<open>
  \<^verbatim>\<open>questions.reduce((sum, q) => sum + (q.questionCount || 0), 0)\<close> and
  \<^verbatim>\<open>questions.length\<close>.
\<close>

definition totalCount :: "chat list \<Rightarrow> int" where
  "totalCount questions = foldl (\<lambda>sum q. sum + or_num (questionCount q) 0) 0 questions"

definition get_api_questions_total_count :: "world \<Rightarrow> reply \<times> world" where
  "get_api_questions_total_count w =
     (case pop_failure w of
        (Some e, w') \<Rightarrow>
          (Json 500 (JObj [(''error'', JStr ''Khong the lay so luong cau hoi''),
                           (''details'', JStr e)]), w')
      | (None, w') \<Rightarrow>
          (Json 200 (JObj [(''success'', JBool True),
                           (''totalCount'', JNum (totalCount (chatData w'))),
                           (''totalQuestions'', JNum (int (length (chatData w'))))]), w'))"

fun delete_first_chat :: "nat \<Rightarrow> chat list \<Rightarrow> chat list" where
  "delete_first_chat i [] = []"
| "delete_first_chat i (c # cs) = (if cid c = i then cs else c # delete_first_chat i cs)"

definition delete_api_data :: "env \<Rightarrow> string \<Rightarrow> world \<Rightarrow> reply \<times> world" where
  "delete_api_data E s w =
     (case castObjectId E s of
        None \<Rightarrow> (Json 500 (JObj [(''error'', JStr (cast_error ''ChatData'' s))]), w)
      | Some i \<Rightarrow>
          (case pop_failure w of
             (Some e, w') \<Rightarrow> (Json 500 (JObj [(''error'', JStr e)]), w')
           | (None, w') \<Rightarrow>
               (Json 200 (JObj [(''message'', JStr ''Deleted successfully'')]),
                w'\<lparr>chatData := delete_first_chat i (chatData w')\<rparr>)))"

section \<open>Carousel routes\<close>

text \<open>
  A request. The body fields are taken at the types of the schemas they feed. \<open>rnd\<close>
  is the value that \<^verbatim>\<open>Math.round(Math.random() * 1E9)\<close> yields while the request is
  served. A multipart file part carries, besides the fields Multer reads, the value of
  \<^verbatim>\<open>path.extname(file.originalname)\<close>. \<open>body_error\<close> is the error, with its status
  and message, that \<^verbatim>\<open>bodyParser.json\<close> or \<^verbatim>\<open>bodyParser.urlencoded\<close> raises for the
  body (malformed JSON gives 400, a body over the limit 413); \<open>None\<close> for a body they
  parse and for a request without one.
\<close>

datatype verb = GET | HEAD | POST | PUT | PATCH | DELETE | OPTIONS | OtherVerb string

record file_part =
  mimetype :: string
  originalname :: string
  extname :: string
  bytes :: "nat list"

record request =
  meth :: verb
  resource :: resource
  b_title :: "string option"
  b_content :: "string option"
  b_imageUrl :: "string option"
  b_alt :: "string option"
  b_order :: "int option"
  b_imageData :: "string option"
  upfile :: "file_part option"
  body_error :: "(nat \<times> string) option"
  rnd :: nat

definition image_doc :: "image \<Rightarrow> json" where
  "image_doc i =
     JObj [(''_id'', JId (iid i)), (''title'', JStr (ititle i)), (''imageUrl'', JStr (imageUrl i)),
           (''alt'', JStr (alt i)), (''order'', JNum (order i)),
           (''createdAt'', JDate (icreatedAt i))]"

definition get_api_carousel :: "world \<Rightarrow> reply \<times> world" where
  "get_api_carousel w =
     (case pop_failure w of
        (Some e, w') \<Rightarrow> (Json 500 (JObj [(''error'', JStr e)]), w')
      | (None, w') \<Rightarrow> (Json 200 (JArr (map image_doc (sort_key order (carouselImages w')))), w'))"

definition new_image :: "string \<Rightarrow> string \<Rightarrow> string \<Rightarrow> int \<Rightarrow> world \<Rightarrow> image \<times> world" where
  "new_image t u a n w =
     (\<lparr>iid = next_oid w, ititle = t, imageUrl = u, alt = a, order = n, icreatedAt = clock w\<rparr>,
      w\<lparr>next_oid := next_oid w + 1\<rparr>)"

text \<open>
  \<^verbatim>\<open>newImage.save()\<close>: \<^verbatim>\<open>title\<close> and \<^verbatim>\<open>imageUrl\<close> are required; then the insert,
  which may fail. A failed save stores nothing.
\<close>

definition image_validation :: "image \<Rightarrow> string option" where
  "image_validation i =
     (if ititle i = [] \<and> imageUrl i = [] then Some ''CarouselImage validation failed: title, imageUrl''
      else if ititle i = [] then Some ''CarouselImage validation failed: title''
      else if imageUrl i = [] then Some ''CarouselImage validation failed: imageUrl''
      else None)"

definition save_image :: "image \<Rightarrow> world \<Rightarrow> (string + unit) \<times> world" where
  "save_image i w =
     (case image_validation i of
        Some e \<Rightarrow> (Inl e, w)
      | None \<Rightarrow>
          (case pop_failure w of
             (Some e, w') \<Rightarrow> (Inl e, w')
           | (None, w') \<Rightarrow> (Inr (), w'\<lparr>carouselImages := carouselImages w' @ [i]\<rparr>)))"

definition post_api_carousel :: "request \<Rightarrow> world \<Rightarrow> reply \<times> world" where
  "post_api_carousel r w =
     (case new_image (or_str (b_title r) []) (or_str (b_imageUrl r) []) (or_str (b_alt r) [])
             (or_num (b_order r) 0) w of
        (newImage, w1) \<Rightarrow>
          (case save_image newImage w1 of
             (Inl e, w2) \<Rightarrow> (Json 400 (JObj [(''error'', JStr e)]), w2)
           | (Inr _, w2) \<Rightarrow> (Json 200 (image_doc newImage), w2)))"

subsection \<open>The upload directory\<close>

definition writeFile :: "string \<Rightarrow> nat list \<Rightarrow> world \<Rightarrow> (string + unit) \<times> world" where
  "writeFile name bs w =
     (case pop_failure w of
        (Some e, w') \<Rightarrow> (Inl e, w')
      | (None, w') \<Rightarrow>
          (Inr (), w'\<lparr>uploads := (name, bs) # filter (\<lambda>p. fst p \<noteq> name) (uploads w')\<rparr>))"

text \<open>
  \<^verbatim>\<open>fs.unlink(path, cb)\<close> where the callback ignores or only logs the error: a failed
  unlink leaves the file and nobody is told.
\<close>

definition unlink :: "string \<Rightarrow> world \<Rightarrow> world" where
  "unlink name w =
     (case pop_failure w of
        (Some e, w') \<Rightarrow> w'
      | (None, w') \<Rightarrow> w'\<lparr>uploads := filter (\<lambda>p. fst p \<noteq> name) (uploads w')\<rparr>)"

definition file_exists :: "string \<Rightarrow> world \<Rightarrow> bool" where
  "file_exists name w = (name \<in> fst ` set (uploads w))"

definition digit :: "nat \<Rightarrow> char" where
  "digit d = ''0123456789'' ! d"

fun string_of_nat :: "nat \<Rightarrow> string" where
  "string_of_nat n =
     (if n < 10 then [digit n] else string_of_nat (n div 10) @ [digit (n mod 10)])"

declare string_of_nat.simps [simp del]

subsection \<open>Multipart upload\<close>

definition allowedMimes :: "string list" where
  "allowedMimes = [''image/jpeg'', ''image/png'', ''image/gif'', ''image/webp'']"

text \<open>
  The \<^verbatim>\<open>fileFilter\<close> given to Multer: \<open>Inr True\<close> is \<^verbatim>\<open>cb(null, true)\<close>, \<open>Inl\<close> is
  \<^verbatim>\<open>cb(new Error(..))\<close>.
\<close>

definition fileFilter :: "file_part \<Rightarrow> string + bool" where
  "fileFilter f =
     (if mimetype f \<in> set allowedMimes then Inr True
      else Inl ''Only image files are allowed'')"

definition storage_filename :: "request \<Rightarrow> file_part \<Rightarrow> world \<Rightarrow> string" where
  "storage_filename r f w =
     string_of_nat (clock w) @ ''-'' @ string_of_nat (rnd r) @ extname f"

text \<open>
  \<^verbatim>\<open>upload.single('image')\<close>. Multer asks the filter first; an error from the filter or
  from the disk goes to \<^verbatim>\<open>next(err)\<close> and the route handler is not called. An accepted
  file is written under the generated name and becomes \<^verbatim>\<open>req.file\<close>, here its
  \<^verbatim>\<open>filename\<close>.
\<close>

definition upload_single :: "request \<Rightarrow> world \<Rightarrow> (string + string option) \<times> world" where
  "upload_single r w =
     (case upfile r of
        None \<Rightarrow> (Inr None, w)
      | Some f \<Rightarrow>
          (case fileFilter f of
             Inl e \<Rightarrow> (Inl e, w)
           | Inr includeFile \<Rightarrow>
               (if includeFile then
                  (let name = storage_filename r f w in
                   case writeFile name (bytes f) w of
                     (Inl e, w1) \<Rightarrow> (Inl e, w1)
                   | (Inr _, w1) \<Rightarrow> (Inr (Some name), w1))
                else (Inr None, w))))"

definition uploaded_body :: "image \<Rightarrow> json" where
  "uploaded_body i =
     JObj [(''success'', JBool True), (''message'', JStr ''Image uploaded successfully''),
           (''data'', image_doc i)]"

definition carousel_upload_handler :: "request \<Rightarrow> string option \<Rightarrow> world \<Rightarrow> reply \<times> world" where
  "carousel_upload_handler r file w =
     (case file of
        None \<Rightarrow> (Json 400 (JObj [(''error'', JStr ''No image file provided'')]), w)
      | Some filename \<Rightarrow>
          (case new_image (or_str (b_title r) ''Untitled'') (''/uploads/'' @ filename)
                  (or_str (b_alt r) []) (or_num (b_order r) 0) w of
             (newImage, w1) \<Rightarrow>
               (case save_image newImage w1 of
                  (Inl e, w2) \<Rightarrow> (Json 400 (JObj [(''error'', JStr e)]), unlink filename w2)
                | (Inr _, w2) \<Rightarrow> (Json 200 (uploaded_body newImage), w2))))"

definition post_api_carousel_upload :: "request \<Rightarrow> world \<Rightarrow> reply \<times> world" where
  "post_api_carousel_upload r w =
     (case upload_single r w of
        (Inl e, w1) \<Rightarrow> (NextErr e, w1)
      | (Inr file, w1) \<Rightarrow> carousel_upload_handler r file w1)"

subsection \<open>Base64 upload\<close>

definition is_word :: "char \<Rightarrow> bool" where
  "is_word c =
     (c \<in> set ''abcdefghijklmnopqrstuvwxyzABCDEFGHIJKLMNOPQRSTUVWXYZ0123456789_'')"

fun strip_prefix :: "string \<Rightarrow> string \<Rightarrow> string option" where
  "strip_prefix [] s = Some s"
| "strip_prefix (p # ps) [] = None"
| "strip_prefix (p # ps) (c # cs) = (if p = c then strip_prefix ps cs else None)"

text \<open>
  \<^verbatim>\<open>imageData.replace(/^data:image\/\w+;base64,/, '')\<close>. The run of word characters is
  followed by a semicolon, which is no word character, so the match is decided by the
  longest run.
\<close>

definition strip_data_uri :: "string \<Rightarrow> string" where
  "strip_data_uri s =
     (case strip_prefix ''data:image/'' s of
        None \<Rightarrow> s
      | Some r \<Rightarrow>
          (if takeWhile is_word r = [] then s
           else (case strip_prefix '';base64,'' (dropWhile is_word r) of
                   None \<Rightarrow> s
                 | Some b \<Rightarrow> b)))"

definition base64_filename :: "request \<Rightarrow> world \<Rightarrow> string" where
  "base64_filename r w =
     ''base64-'' @ string_of_nat (clock w) @ ''-'' @ string_of_nat (rnd r) @ ''.png''"

definition post_api_carousel_upload_base64 :: "env \<Rightarrow> request \<Rightarrow> world \<Rightarrow> reply \<times> world" where
  "post_api_carousel_upload_base64 E r w =
     (if or_str (b_imageData r) [] = [] then
        (Json 400 (JObj [(''error'', JStr ''No image data provided'')]), w)
      else
        (let base64Data = strip_data_uri (or_str (b_imageData r) []);
             filename = base64_filename r w
         in case writeFile filename (fromBase64 E base64Data) w of
              (Inl e, w1) \<Rightarrow> (Json 400 (JObj [(''error'', JStr e)]), w1)
            | (Inr _, w1) \<Rightarrow>
                (case new_image (or_str (b_title r) ''Untitled'') (''/uploads/'' @ filename)
                        (or_str (b_alt r) []) (or_num (b_order r) 0) w1 of
                   (newImage, w2) \<Rightarrow>
                     (case save_image newImage w2 of
                        (Inl e, w3) \<Rightarrow> (Json 400 (JObj [(''error'', JStr e)]), w3)
                      | (Inr _, w3) \<Rightarrow> (Json 200 (uploaded_body newImage), w3)))))"

subsection \<open>Deleting an image\<close>

fun delete_first_image :: "nat \<Rightarrow> image list \<Rightarrow> image list" where
  "delete_first_image i [] = []"
| "delete_first_image i (x # xs) = (if iid x = i then xs else x # delete_first_image i xs)"

definition delete_api_carousel :: "env \<Rightarrow> string \<Rightarrow> world \<Rightarrow> reply \<times> world" where
  "delete_api_carousel E s w =
     (case castObjectId E s of
        None \<Rightarrow> (Json 500 (JObj [(''error'', JStr (cast_error ''CarouselImage'' s))]), w)
      | Some i \<Rightarrow>
          (case pop_failure w of
             (Some e, w') \<Rightarrow> (Json 500 (JObj [(''error'', JStr e)]), w')
           | (None, w') \<Rightarrow>
               (let w1 = w'\<lparr>carouselImages := delete_first_image i (carouselImages w')\<rparr>;
                    w2 = (case find (\<lambda>x. iid x = i) (carouselImages w') of
                            None \<Rightarrow> w1
                          | Some img \<Rightarrow>
                              (if take 9 (imageUrl img) = ''/uploads/''
                               then unlink (drop 9 (imageUrl img)) w1 else w1))
                in (Json 200 (JObj [(''message'', JStr ''Deleted successfully'')]), w2))))"

section \<open>The application\<close>

definition isMongoReady :: "world \<Rightarrow> bool" where
  "isMongoReady w = (readyState w = 1)"

definition not_connected :: json where
  "not_connected =
     JObj [(''success'', JBool False), (''error'', JStr ''Database not connected''),
           (''message'', JStr ''Please try again in a few moments'')]"

text \<open>
  The middlewares that server.js registers before the connection check, in its order.

  \<^verbatim>\<open>cors()\<close> answers every OPTIONS request itself, with 204, and passes every other
  request on.
\<close>

definition cors :: "request \<Rightarrow> reply option" where
  "cors r = (if meth r = OPTIONS then Some (Bare 204) else None)"

text \<open>
  \<^verbatim>\<open>bodyParser.json\<close> and \<^verbatim>\<open>bodyParser.urlencoded\<close>: the error they raise for the body
  goes to \<^verbatim>\<open>next\<close> with its status. A multipart body, the only kind with a file part,
  is of neither type and is passed on unread.
\<close>

definition body_parsers :: "request \<Rightarrow> reply option" where
  "body_parsers r =
     (case body_error r of
        None \<Rightarrow> None
      | Some (n, m) \<Rightarrow> (if upfile r = None then Some (HttpError n m) else None))"

text \<open>
  The two \<^verbatim>\<open>express.static\<close> middlewares. They answer a GET or a HEAD whose URL they
  resolve under the application directory (the upload directory lies inside it) and pass
  every other request on.
\<close>

definition serve_static :: "env \<Rightarrow> request \<Rightarrow> world \<Rightarrow> reply option" where
  "serve_static E r w =
     (if meth r = GET \<or> meth r = HEAD then
        (case resource r of
           Uploads name \<Rightarrow>
             (if file_exists name w then Some (File (''uploads/'' @ name))
              else static_reply E (Uploads name))
         | t \<Rightarrow> static_reply E t)
      else None)"

text \<open>
  \<^verbatim>\<open>res.sendFile(path.join(__dirname, name))\<close>: the file, or for a missing file an error
  with status 404 handed to \<^verbatim>\<open>next\<close>.
\<close>

definition sendFile :: "env \<Rightarrow> string \<Rightarrow> reply" where
  "sendFile E name = (if has_file E name then File name else HttpError 404 ''ENOENT'')"

text \<open>
  The routes, in the order server.js registers them. Express gives a HEAD request to the
  handler of the GET route.
\<close>

definition route :: "env \<Rightarrow> request \<Rightarrow> world \<Rightarrow> reply \<times> world" where
  "route E r w =
     (case (if meth r = HEAD then GET else meth r, resource r) of
        (POST, ApiVisitor) \<Rightarrow> counter_route Visitor Increment w
      | (GET, ApiVisitor) \<Rightarrow> counter_route Visitor Get w
      | (POST, ApiVisitorReset) \<Rightarrow> counter_route Visitor Reset w
      | (POST, ApiQuestionsRequest) \<Rightarrow> counter_route QuestionRequest Increment w
      | (GET, ApiQuestionsRequest) \<Rightarrow> counter_route QuestionRequest Get w
      | (POST, ApiQuestionsRequestReset) \<Rightarrow> counter_route QuestionRequest Reset w
      | (GET, ApiData) \<Rightarrow> get_api_data w
      | (POST, ApiData) \<Rightarrow> post_api_data E (b_title r) (b_content r) w
      | (POST, ApiDataIdIncrement s) \<Rightarrow> post_api_data_increment E s w
      | (GET, ApiQuestionsTotalCount) \<Rightarrow> get_api_questions_total_count w
      | (DELETE, ApiDataId s) \<Rightarrow> delete_api_data E s w
      | (GET, ApiCarousel) \<Rightarrow> get_api_carousel w
      | (POST, ApiCarousel) \<Rightarrow> post_api_carousel r w
      | (POST, ApiCarouselUpload) \<Rightarrow> post_api_carousel_upload r w
      | (POST, ApiCarouselUploadBase64) \<Rightarrow> post_api_carousel_upload_base64 E r w
      | (DELETE, ApiCarouselId s) \<Rightarrow> delete_api_carousel E s w
      | (GET, Admin) \<Rightarrow> (sendFile E ''admin.html'', w)
      | (GET, Root) \<Rightarrow> (sendFile E ''index.html'', w)
      | _ \<Rightarrow> (NotRouted, w))"

text \<open>
  The middleware chain: CORS, the body parsers, static files, then the connection check
  (\<^verbatim>\<open>if (!isMongoReady()) return res.status(503).json(..)\<close>), then the routes.
\<close>

definition app :: "env \<Rightarrow> request \<Rightarrow> world \<Rightarrow> reply \<times> world" where
  "app E r w =
     (case cors r of
        Some a \<Rightarrow> (a, w)
      | None \<Rightarrow>
          (case body_parsers r of
             Some a \<Rightarrow> (a, w)
           | None \<Rightarrow>
               (case serve_static E r w of
                  Some f \<Rightarrow> (f, w)
                | None \<Rightarrow>
                    (if \<not> isMongoReady w then (Json 503 not_connected, w)
                     else route E r w))))"

text \<open>
  The status a client sees. An error handed to \<^verbatim>\<open>next\<close> reaches no error middleware
  (server.js registers none), so Express's own final handler answers it: with the status
  the error carries, and for an error that carries none, as \<^verbatim>\<open>new Error(..)\<close> does,
  with 500. An unrouted request gets its 404.
\<close>

definition http_status :: "reply \<Rightarrow> nat option" where
  "http_status rep =
     (case rep of
        Json n b \<Rightarrow> Some n
      | File f \<Rightarrow> Some 200
      | Bare n \<Rightarrow> Some n
      | NextErr e \<Rightarrow> Some 500
      | HttpError n m \<Rightarrow> Some n
      | NotRouted \<Rightarrow> Some 404
      | NoReply \<Rightarrow> None)"

section \<open>The retry policy as the specification words it\<close>

text \<open>
  Written from the specification, for comparison with \<open>counter_route\<close>: the
  sequence is attempted up to three times in all, with a wait of 1000 ms before the
  second and before the third attempt; the first success is answered at once, and 500
  only after the third failure.
\<close>

definition spec_counter_route :: "kind \<Rightarrow> cop \<Rightarrow> world \<Rightarrow> reply \<times> world" where
  "spec_counter_route k c w =
     (case counter_attempt k c w of
        (Inr ok, w1) \<Rightarrow> (Json 200 ok, w1)
      | (Inl e1, w1) \<Rightarrow>
          (case counter_attempt k c (setTimeout 1000 w1) of
             (Inr ok, w2) \<Rightarrow> (Json 200 ok, w2)
           | (Inl e2, w2) \<Rightarrow>
               (case counter_attempt k c (setTimeout 1000 w2) of
                  (Inr ok, w3) \<Rightarrow> (Json 200 ok, w3)
                | (Inl e3, w3) \<Rightarrow> (Json 500 (error500 (counter_error k c) e3), w3))))"

section \<open>Sequences of counter operations\<close>

text \<open>
  One after the other: calls of the six counter routes and of the two initialisers that
  run when the connection opens.
\<close>

datatype step = Call kind cop | Initialize kind

definition exec :: "step \<Rightarrow> world \<Rightarrow> world" where
  "exec s w =
     (case s of
        Call k c \<Rightarrow> snd (counter_route k c w)
      | Initialize k \<Rightarrow> initializeCounter k w)"

fun run :: "step list \<Rightarrow> world \<Rightarrow> world" where
  "run [] w = w"
| "run (s # ss) w = run ss (exec s w)"

section \<open>Example states and requests\<close>

definition empty_world :: world where
  "empty_world =
     \<lparr>readyState = 1, visitorCounters = [], questionRequestCounters = [], chatData = [],
      carouselImages = [], uploads = [], clock = 0, next_oid = 0, failures = [], timers = []\<rparr>"

text \<open>Three chat records asked 3, 0 and 7 times, created in that order.\<close>

definition three_chats :: world where
  "three_chats =
     empty_world\<lparr>chatData :=
       [\<lparr>cid = 0, title = ''a'', content = ''x'', date = ''d0'', questionCount = Some 3, createdAt = 10\<rparr>,
        \<lparr>cid = 1, title = ''b'', content = ''y'', date = ''d1'', questionCount = Some 0, createdAt = 20\<rparr>,
        \<lparr>cid = 2, title = ''c'', content = ''z'', date = ''d2'', questionCount = Some 7, createdAt = 30\<rparr>],
       next_oid := 3\<rparr>"

text \<open>Storage that fails the next two calls and then works.\<close>

definition twice_down :: world where
  "twice_down = empty_world\<lparr>failures := [Some ''timeout'', Some ''timeout'']\<rparr>"

text \<open>A visitor counter at 41, and storage that fails the next call only.\<close>

definition one_visitor :: world where
  "one_visitor =
     empty_world\<lparr>visitorCounters := [\<lparr>oid = 0, count = 41, lastUpdated = 0\<rparr>],
       next_oid := 1, failures := [Some ''timeout'']\<rparr>"

definition some_calls :: "step list" where
  "some_calls =
     [Initialize Visitor, Call Visitor Get, Call Visitor Increment,
      Call QuestionRequest Increment, Call Visitor Increment, Call Visitor Reset,
      Call Visitor Increment, Initialize Visitor]"

text \<open>
  The cast of the example environment: an ObjectId is written as 24 hexadecimal digits,
  read here as a number.
\<close>

definition hex_digit :: "char \<Rightarrow> nat option" where
  "hex_digit c =
     map_of [(CHR ''0'', 0), (CHR ''1'', 1), (CHR ''2'', 2), (CHR ''3'', 3), (CHR ''4'', 4),
             (CHR ''5'', 5), (CHR ''6'', 6), (CHR ''7'', 7), (CHR ''8'', 8), (CHR ''9'', 9),
             (CHR ''a'', 10), (CHR ''b'', 11), (CHR ''c'', 12), (CHR ''d'', 13),
             (CHR ''e'', 14), (CHR ''f'', 15), (CHR ''A'', 10), (CHR ''B'', 11),
             (CHR ''C'', 12), (CHR ''D'', 13), (CHR ''E'', 14), (CHR ''F'', 15)] c"

fun hex_number :: "string \<Rightarrow> nat \<Rightarrow> nat option" where
  "hex_number [] acc = Some acc"
| "hex_number (c # cs) acc =
     (case hex_digit c of None \<Rightarrow> None | Some d \<Rightarrow> hex_number cs (16 * acc + d))"

definition hex24 :: "string \<Rightarrow> nat option" where
  "hex24 s = (if length s = 24 then hex_number s 0 else None)"

text \<open>
  An environment without static files, and one where the application directory holds
  \<^verbatim>\<open>index.html\<close>, the file the route for \<^verbatim>\<open>/\<close> sends. The stand-in for the base64
  decoder yields one byte, the length of its input.
\<close>

definition env0 :: env where
  "env0 =
     \<lparr>toLocaleString = (\<lambda>t. ''now''), fromBase64 = (\<lambda>s. [length s]),
      castObjectId = hex24, static_reply = (\<lambda>t. None), has_file = (\<lambda>n. False)\<rparr>"

definition site_env :: env where
  "site_env =
     env0\<lparr>static_reply := (\<lambda>t. if t = Root then Some (File ''index.html'') else None),
       has_file := (\<lambda>n. n = ''index.html'')\<rparr>"

definition down_world :: world where
  "down_world = empty_world\<lparr>readyState := 0\<rparr>"

definition get_root :: request where
  "get_root =
     \<lparr>meth = GET, resource = Root, b_title = None, b_content = None, b_imageUrl = None,
      b_alt = None, b_order = None, b_imageData = None, upfile = None, body_error = None,
      rnd = 0\<rparr>"

definition pdf_upload :: request where
  "pdf_upload =
     get_root\<lparr>meth := POST, resource := ApiCarouselUpload,
       upfile := Some \<lparr>mimetype = ''application/pdf'', originalname = ''a.pdf'',
                        extname = ''.pdf'', bytes = [37, 80, 68, 70]\<rparr>\<rparr>"

definition png_upload :: request where
  "png_upload =
     get_root\<lparr>meth := POST, resource := ApiCarouselUpload,
       upfile := Some \<lparr>mimetype = ''image/png'', originalname = ''a.png'',
                        extname = ''.png'', bytes = [137, 80, 78, 71]\<rparr>\<rparr>"

definition base64_upload :: request where
  "base64_upload =
     get_root\<lparr>meth := POST, resource := ApiCarouselUploadBase64,
       b_imageData := Some ''data:application/pdf;base64,JVBERg==''\<rparr>"

text \<open>
  Requests that the middlewares before the connection check answer: a CORS preflight, a
  POST whose JSON body does not parse, and a HEAD of the start page. And a request to
  raise the count of the question with the id \<^verbatim>\<open>abc\<close>.
\<close>

definition preflight :: request where
  "preflight = get_root\<lparr>meth := OPTIONS, resource := ApiVisitor\<rparr>"

definition bad_json :: request where
  "bad_json =
     get_root\<lparr>meth := POST, resource := ApiData,
       body_error := Some (400, ''Unexpected end of JSON input'')\<rparr>"

definition head_root :: request where
  "head_root = get_root\<lparr>meth := HEAD\<rparr>"

definition increment_abc :: request where
  "increment_abc = get_root\<lparr>meth := POST, resource := ApiDataIdIncrement ''abc''\<rparr>"

text \<open>The first storage or file call works, the second fails, the third works.\<close>

definition save_fails :: world where
  "save_fails = empty_world\<lparr>failures := [None, Some ''insert failed'', None]\<rparr>"

section \<open>Facts about the failure schedule\<close>

lemma pop_failure_frame:
  "pop_failure w = (f, w') \<Longrightarrow> w' = w\<lparr>failures := tl (failures w)\<rparr>"
  by (auto simp: pop_failure_def split: list.splits)

lemma snd_pop_failure: "snd (pop_failure w) = w\<lparr>failures := tl (failures w)\<rparr>"
  by (cases "pop_failure w") (simp add: pop_failure_frame)

section \<open>The total of the question counts\<close>

lemma foldl_add_sum:
  "foldl (\<lambda>sum q. sum + f q) a qs = a + sum_list (map f qs)" for a :: int
  by (induction qs arbitrary: a) (simp_all add: add.assoc)

lemma or_num_zero: "or_num n 0 = (case n of None \<Rightarrow> 0 | Some v \<Rightarrow> v)"
  by (simp add: or_num_def split: option.splits)

lemma totalCount_sum_list:
  "totalCount qs = (\<Sum>q\<leftarrow>qs. case questionCount q of None \<Rightarrow> 0 | Some v \<Rightarrow> v)"
  by (simp add: totalCount_def foldl_add_sum or_num_zero)

text \<open>
  Claim C6. When the query for all chat records does not fail, the total-count route
  answers with \<open>totalCount\<close> the sum of the \<open>questionCount\<close> of all records, a record
  without the field adding 0, and with \<open>totalQuestions\<close> the number of records; the
  request changes nothing but the consumed slot of the failure schedule. Over records
  with counts 3, 0 and 7 the reply is \<open>totalCount = 10\<close>, \<open>totalQuestions = 3\<close> (the
  witness).
\<close>

theorem totalQuestionCount_sum:
  assumes "fst (pop_failure w) = None"
  shows "get_api_questions_total_count w =
           (Json 200 (JObj [(''success'', JBool True),
              (''totalCount'',
                 JNum (\<Sum>q\<leftarrow>chatData w. case questionCount q of None \<Rightarrow> 0 | Some v \<Rightarrow> v)),
              (''totalQuestions'', JNum (int (length (chatData w))))]),
            snd (pop_failure w))"
proof -
  obtain w' where p: "pop_failure w = (None, w')"
    using assms by (cases "pop_failure w") simp
  have "chatData w' = chatData w"
    using pop_failure_frame [OF p] by simp
  then show ?thesis
    using p by (simp add: get_api_questions_total_count_def totalCount_sum_list)
qed

theorem totalQuestionCount_sum_witness:
  "fst (pop_failure three_chats) = None \<and>
   fst (get_api_questions_total_count three_chats) =
     Json 200 (JObj [(''success'', JBool True), (''totalCount'', JNum 10),
                     (''totalQuestions'', JNum 3)])"
proof -
  have h: "fst (pop_failure three_chats) = None"
    by (simp add: pop_failure_def three_chats_def empty_world_def)
  show ?thesis
    using h totalQuestionCount_sum [OF h] by (simp add: three_chats_def empty_world_def)
qed

section \<open>Listing the chat records\<close>

lemma mset_newest_first: "mset (newest_first cs) = mset cs"
  by (simp add: newest_first_def)

lemma sorted_newest_first:
  "sorted_wrt (\<lambda>a b. createdAt b \<le> createdAt a) (newest_first cs)"
proof -
  have "sorted (map (\<lambda>c. - int (createdAt c)) (newest_first cs))"
    unfolding newest_first_def by (rule sorted_sort_key)
  then show ?thesis
    by (simp add: sorted_map)
qed

lemma field_format_chat:
  "field k (format_chat c) =
     (if k = ''id'' then Some (JId (cid c))
      else if k = ''title'' then Some (JStr (title c))
      else if k = ''content'' then Some (JStr (content c))
      else if k = ''date'' then Some (JStr (date c))
      else None)"
  by (simp add: format_chat_def)

text \<open>
  Claim C9. When the query does not fail, the list route answers with one item per
  stored chat record: the items are the whole collection (equal as multisets, so nothing
  is left out, cut off or repeated), ordered by \<open>createdAt\<close> from the latest to the
  earliest, and each item has the fields \<open>id\<close> (the record's internal id), \<open>title\<close>,
  \<open>content\<close> and \<open>date\<close> and no other field: looking up any other name, such as
  \<open>questionCount\<close> or \<open>createdAt\<close>, finds nothing.
\<close>

theorem listAll_newest_first:
  assumes "fst (pop_failure w) = None"
  shows "get_api_data w =
           (Json 200 (JArr (map format_chat (newest_first (chatData w)))), snd (pop_failure w))
       \<and> mset (newest_first (chatData w)) = mset (chatData w)
       \<and> sorted_wrt (\<lambda>a b. createdAt b \<le> createdAt a) (newest_first (chatData w))
       \<and> (\<forall>c k. field k (format_chat c) =
            (if k = ''id'' then Some (JId (cid c))
             else if k = ''title'' then Some (JStr (title c))
             else if k = ''content'' then Some (JStr (content c))
             else if k = ''date'' then Some (JStr (date c))
             else None))"
proof -
  obtain w' where p: "pop_failure w = (None, w')"
    using assms by (cases "pop_failure w") simp
  have "chatData w' = chatData w"
    using pop_failure_frame [OF p] by simp
  then have "get_api_data w =
      (Json 200 (JArr (map format_chat (newest_first (chatData w)))), snd (pop_failure w))"
    using p by (simp add: get_api_data_def)
  then show ?thesis
    by (simp only: mset_newest_first sorted_newest_first field_format_chat simp_thms)
qed

theorem listAll_newest_first_witness:
  "fst (pop_failure three_chats) = None \<and>
   fst (get_api_data three_chats) =
     Json 200 (JArr
       [JObj [(''id'', JId 2), (''title'', JStr ''c''), (''content'', JStr ''z''), (''date'', JStr ''d2'')],
        JObj [(''id'', JId 1), (''title'', JStr ''b''), (''content'', JStr ''y''), (''date'', JStr ''d1'')],
        JObj [(''id'', JId 0), (''title'', JStr ''a''), (''content'', JStr ''x''), (''date'', JStr ''d0'')]])"
proof -
  have h: "fst (pop_failure three_chats) = None"
    by (simp add: pop_failure_def three_chats_def empty_world_def)
  show ?thesis
    using h listAll_newest_first [OF h]
    by (simp add: three_chats_def empty_world_def newest_first_def format_chat_def)
qed

section \<open>Incrementing one question count\<close>

lemma find_absent: "i \<notin> cid ` set cs \<Longrightarrow> find (\<lambda>c. cid c = i) cs = None"
  by (induction cs) auto

lemma find_first:
  "i \<notin> cid ` set xs \<Longrightarrow> cid c = i \<Longrightarrow> find (\<lambda>c. cid c = i) (xs @ c # ys) = Some c"
  by (induction xs) auto

lemma inc_first_first:
  "i \<notin> cid ` set xs \<Longrightarrow> cid c = i \<Longrightarrow>
   inc_first i (xs @ c # ys) = xs @ inc_questionCount c # ys"
  by (induction xs) auto

text \<open>
  Claim C4, as amended. The increment route, for every id string. If the string is no
  ObjectId, the query throws before any storage call: the reply is 500 with the cast
  error and the world is unchanged. If it is one and the storage call fails, the reply is
  500 with the message of the failure and no stored record changes. If it is one and the
  storage call does not fail: when no chat record has the id, the reply is 404 with
  \<open>Question not found\<close> and no stored record changes; when a record \<open>c\<close> has it, the
  collection afterwards is the collection before with \<open>c\<close> replaced by \<open>c\<close> with its
  \<open>questionCount\<close> raised by exactly 1 (an absent count taken as 0): the other fields of
  \<open>c\<close> and all other records, before and after it, are the same, nothing else in the world
  changes, and the reply carries the id, the title and the new count of the updated record.
\<close>

theorem incrementQuestion_frame:
  "(castObjectId E s = None \<longrightarrow>
      post_api_data_increment E s w =
        (Json 500 (JObj [(''error'', JStr (cast_error ''ChatData'' s))]), w))
   \<and> (\<forall>i e. castObjectId E s = Some i \<and> fst (pop_failure w) = Some e \<longrightarrow>
         post_api_data_increment E s w =
           (Json 500 (JObj [(''error'', JStr e)]), snd (pop_failure w))
         \<and> chatData (snd (pop_failure w)) = chatData w)
   \<and> (\<forall>i. castObjectId E s = Some i \<and> fst (pop_failure w) = None \<longrightarrow>
         (i \<notin> cid ` set (chatData w) \<longrightarrow>
            post_api_data_increment E s w =
              (Json 404 (JObj [(''error'', JStr ''Question not found'')]), snd (pop_failure w))
            \<and> chatData (snd (pop_failure w)) = chatData w)
         \<and> (\<forall>xs c ys. chatData w = xs @ c # ys \<and> cid c = i \<and> i \<notin> cid ` set xs \<longrightarrow>
              post_api_data_increment E s w =
                (Json 200 (JObj [(''success'', JBool True), (''id'', JId i),
                   (''title'', JStr (title c)),
                   (''questionCount'',
                      JNum ((case questionCount c of None \<Rightarrow> 0 | Some n \<Rightarrow> n) + 1))]),
                 (snd (pop_failure w))\<lparr>chatData :=
                    xs @ c\<lparr>questionCount :=
                              Some ((case questionCount c of None \<Rightarrow> 0 | Some n \<Rightarrow> n) + 1)\<rparr>
                       # ys\<rparr>)))"
proof -
  obtain f w' where p: "pop_failure w = (f, w')"
    by (cases "pop_failure w")
  have cd: "chatData w' = chatData w"
    using pop_failure_frame [OF p] by simp
  have malformed: "post_api_data_increment E s w =
        (Json 500 (JObj [(''error'', JStr (cast_error ''ChatData'' s))]), w)"
    if "castObjectId E s = None"
    using that by (simp add: post_api_data_increment_def findByIdAndUpdate_inc_def)
  have failed: "post_api_data_increment E s w =
           (Json 500 (JObj [(''error'', JStr e)]), snd (pop_failure w))
         \<and> chatData (snd (pop_failure w)) = chatData w"
    if "castObjectId E s = Some i" "fst (pop_failure w) = Some e" for i e
    using that p cd by (simp add: post_api_data_increment_def findByIdAndUpdate_inc_def)
  have absent: "post_api_data_increment E s w =
              (Json 404 (JObj [(''error'', JStr ''Question not found'')]), snd (pop_failure w))
            \<and> chatData (snd (pop_failure w)) = chatData w"
    if "castObjectId E s = Some i" "fst (pop_failure w) = None" "i \<notin> cid ` set (chatData w)"
    for i
    using that p cd
    by (simp add: post_api_data_increment_def findByIdAndUpdate_inc_def find_absent)
  have present: "post_api_data_increment E s w =
                (Json 200 (JObj [(''success'', JBool True), (''id'', JId i),
                   (''title'', JStr (title c)),
                   (''questionCount'',
                      JNum ((case questionCount c of None \<Rightarrow> 0 | Some n \<Rightarrow> n) + 1))]),
                 (snd (pop_failure w))\<lparr>chatData :=
                    xs @ c\<lparr>questionCount :=
                              Some ((case questionCount c of None \<Rightarrow> 0 | Some n \<Rightarrow> n) + 1)\<rparr>
                       # ys\<rparr>)"
    if "castObjectId E s = Some i" "fst (pop_failure w) = None"
      "chatData w = xs @ c # ys" "cid c = i" "i \<notin> cid ` set xs"
    for i xs c ys
    using that p cd
    by (simp add: post_api_data_increment_def findByIdAndUpdate_inc_def find_first
        inc_first_first inc_questionCount_def json_count_def)
  from malformed failed absent present show ?thesis
    by blast
qed

theorem incrementQuestion_frame_witness:
  "castObjectId env0 ''000000000000000000000007'' = Some 7 \<and>
   castObjectId env0 ''000000000000000000000001'' = Some 1 \<and>
   fst (pop_failure three_chats) = None \<and>
   post_api_data_increment env0 ''000000000000000000000007'' three_chats =
     (Json 404 (JObj [(''error'', JStr ''Question not found'')]), three_chats) \<and>
   fst (post_api_data_increment env0 ''000000000000000000000001'' three_chats) =
     Json 200 (JObj [(''success'', JBool True), (''id'', JId 1), (''title'', JStr ''b''),
                     (''questionCount'', JNum 1)]) \<and>
   map questionCount
     (chatData (snd (post_api_data_increment env0 ''000000000000000000000001'' three_chats))) =
     [Some 3, Some 1, Some 7]"
proof -
  have c7: "castObjectId env0 ''000000000000000000000007'' = Some 7"
    by (simp add: env0_def hex24_def hex_digit_def)
  have c1: "castObjectId env0 ''000000000000000000000001'' = Some 1"
    by (simp add: env0_def hex24_def hex_digit_def)
  have h: "fst (pop_failure three_chats) = None"
    by (simp add: pop_failure_def three_chats_def empty_world_def)
  have s: "snd (pop_failure three_chats) = three_chats"
    by (simp add: pop_failure_def three_chats_def empty_world_def)
  have a: "7 \<notin> cid ` set (chatData three_chats)"
    by (simp add: three_chats_def empty_world_def)
  let ?xs = "[\<lparr>cid = 0, title = ''a'', content = ''x'', date = ''d0'',
              questionCount = Some 3, createdAt = 10\<rparr>]"
  let ?c = "\<lparr>cid = 1, title = ''b'', content = ''y'', date = ''d1'',
             questionCount = Some 0, createdAt = 20\<rparr>"
  let ?ys = "[\<lparr>cid = 2, title = ''c'', content = ''z'', date = ''d2'',
              questionCount = Some 7, createdAt = 30\<rparr>]"
  have b: "chatData three_chats = ?xs @ ?c # ?ys \<and> cid ?c = 1 \<and> 1 \<notin> cid ` set ?xs"
    by (simp add: three_chats_def empty_world_def)
  from incrementQuestion_frame [of env0 "''000000000000000000000007''" three_chats] c7 h a s
  have r1: "post_api_data_increment env0 ''000000000000000000000007'' three_chats =
     (Json 404 (JObj [(''error'', JStr ''Question not found'')]), three_chats)"
    by simp
  from incrementQuestion_frame [of env0 "''000000000000000000000001''" three_chats] c1 h b
  have r2: "post_api_data_increment env0 ''000000000000000000000001'' three_chats =
      (Json 200 (JObj [(''success'', JBool True), (''id'', JId 1), (''title'', JStr (title ?c)),
         (''questionCount'',
            JNum ((case questionCount ?c of None \<Rightarrow> 0 | Some n \<Rightarrow> n) + 1))]),
       (snd (pop_failure three_chats))\<lparr>chatData :=
          ?xs @ ?c\<lparr>questionCount :=
                     Some ((case questionCount ?c of None \<Rightarrow> 0 | Some n \<Rightarrow> n) + 1)\<rparr>
             # ?ys\<rparr>)"
    by blast
  show ?thesis
    using c7 c1 h r1 r2 by simp
qed

text \<open>
  Claim C4 as stated fails: \<^verbatim>\<open>abc\<close> is the id of no chat record, and the increment
  route answers it with 500, not with 404.
\<close>

theorem malformed_id_counterexample:
  "castObjectId env0 ''abc'' = None
   \<and> app env0 increment_abc three_chats =
       (Json 500 (JObj [(''error'',
          JStr ''Cast to ObjectId failed for value abc at path _id for model ChatData'')]),
        three_chats)
   \<and> http_status (fst (app env0 increment_abc three_chats)) \<noteq> Some 404"
  by (simp add: app_def cors_def body_parsers_def serve_static_def route_def
      post_api_data_increment_def findByIdAndUpdate_inc_def cast_error_def http_status_def
      increment_abc_def get_root_def env0_def hex24_def isMongoReady_def three_chats_def
      empty_world_def)

section \<open>Counters: what one attempt does to the collections\<close>

lemma collection_set_collection [simp]:
  "collection k' (set_collection k ds w) = (if k' = k then ds else collection k' w)"
  by (cases k; cases k') (simp_all add: collection_def set_collection_def)

lemma collection_failures [simp]: "collection k (w\<lparr>failures := fs\<rparr>) = collection k w"
  by (cases k) (simp_all add: collection_def)

lemma collection_next_oid [simp]: "collection k (w\<lparr>next_oid := n\<rparr>) = collection k w"
  by (cases k) (simp_all add: collection_def)

lemma collection_setTimeout [simp]: "collection k (setTimeout ms w) = collection k w"
  by (cases k) (simp_all add: collection_def setTimeout_def)

lemma collection_pop_failure:
  "pop_failure w = (f, w') \<Longrightarrow> collection k w' = collection k w"
  by (drule pop_failure_frame) simp

lemma findOne_cases:
  assumes "findOne k w = (r, w')"
  shows "collection k' w' = collection k' w"
    and "(\<exists>e. r = Inl e) \<or> r = Inr (case collection k w of [] \<Rightarrow> None | d # _ \<Rightarrow> Some d)"
  using assms
  by (auto simp: findOne_def pop_failure_def split: list.splits option.splits)

lemma save_counter_cases:
  assumes "save_counter k isNew d w = (r, w')"
  shows "(\<exists>e. r = Inl e \<and> (\<forall>k'. collection k' w' = collection k' w))
       \<or> (r = Inr () \<and> (\<forall>k'. collection k' w' =
             (if k' = k then (if isNew then collection k w @ [d] else write_back d (collection k w))
              else collection k' w)))"
  using assms
  by (auto simp: save_counter_def pop_failure_def split: list.splits option.splits)

lemma attempt_failed:
  assumes "counter_attempt k c w = (Inl e, w')"
  shows "collection k' w' = collection k' w"
proof -
  obtain r1 w1 where f: "findOne k w = (r1, w1)" by (cases "findOne k w")
  note f1 = findOne_cases [OF f]
  show ?thesis
  proof (cases c)
    case Get
    then show ?thesis using assms f f1(1)[of k']
      by (auto simp: counter_attempt_def get_attempt_def new_counter_def
          split: sum.splits option.splits prod.splits dest!: save_counter_cases)
  next
    case Increment
    then show ?thesis using assms f f1(1)[of k']
      by (auto simp: counter_attempt_def increment_attempt_def new_counter_def Let_def
          split: sum.splits option.splits prod.splits dest!: save_counter_cases)
  next
    case Reset
    then show ?thesis using assms f f1(1)[of k']
      by (auto simp: counter_attempt_def reset_attempt_def new_counter_def Let_def
          split: sum.splits option.splits prod.splits dest!: save_counter_cases)
  qed
qed

lemma attempt_other_kind:
  assumes "counter_attempt k c w = (r, w')" and "k' \<noteq> k"
  shows "collection k' w' = collection k' w"
proof -
  obtain r1 w1 where f: "findOne k w = (r1, w1)" by (cases "findOne k w")
  note f1 = findOne_cases [OF f]
  show ?thesis
  proof (cases c)
    case Get
    then show ?thesis using assms f f1(1)[of k']
      by (auto simp: counter_attempt_def get_attempt_def new_counter_def
          split: sum.splits option.splits prod.splits dest!: save_counter_cases)
  next
    case Increment
    then show ?thesis using assms f f1(1)[of k']
      by (auto simp: counter_attempt_def increment_attempt_def new_counter_def Let_def
          split: sum.splits option.splits prod.splits dest!: save_counter_cases)
  next
    case Reset
    then show ?thesis using assms f f1(1)[of k']
      by (auto simp: counter_attempt_def reset_attempt_def new_counter_def Let_def
          split: sum.splits option.splits prod.splits dest!: save_counter_cases)
  qed
qed

lemma attempt_ok:
  assumes "counter_attempt k c w = (Inr b, w')"
  shows "(collection k w = [] \<and>
          (\<exists>d. collection k w' = [d] \<and> count d = (if c = Increment then 1 else 0) \<and>
                field ''count'' b = Some (JNum (count d))))
       \<or> (\<exists>d ds d'. collection k w = d # ds \<and> collection k w' = d' # ds \<and> oid d' = oid d \<and>
             count d' = (case c of Get \<Rightarrow> count d | Increment \<Rightarrow> count d + 1 | Reset \<Rightarrow> 0) \<and>
             field ''count'' b = Some (JNum (count d')))"
proof -
  obtain r1 w1 where f: "findOne k w = (r1, w1)" by (cases "findOne k w")
  note f1 = findOne_cases [OF f]
  show ?thesis
  proof (cases c)
    case Get
    then show ?thesis using assms f f1(1)[of k] f1(2)
      by (auto simp: counter_attempt_def get_attempt_def new_counter_def count_body_def
          split: sum.splits option.splits prod.splits list.splits dest!: save_counter_cases)
  next
    case Increment
    then show ?thesis using assms f f1(1)[of k] f1(2)
      by (auto simp: counter_attempt_def increment_attempt_def new_counter_def Let_def count_body_def
          split: sum.splits option.splits prod.splits list.splits dest!: save_counter_cases)
  next
    case Reset
    then show ?thesis using assms f f1(1)[of k] f1(2)
      by (auto simp: counter_attempt_def reset_attempt_def new_counter_def Let_def reset_body_def
          split: sum.splits option.splits prod.splits list.splits dest!: save_counter_cases)
  qed
qed

lemma retry_loop_result:
  assumes "retry_loop (counter_attempt k c) msg n w = (rep, w')"
  shows "(\<exists>w1 b. (\<forall>k'. collection k' w1 = collection k' w) \<and>
                 counter_attempt k c w1 = (Inr b, w') \<and> rep = Json 200 b)
       \<or> ((\<forall>k'. collection k' w' = collection k' w) \<and> (\<forall>b. rep \<noteq> Json 200 b))"
  using assms
proof (induction n arbitrary: w)
  case 0
  then show ?case by auto
next
  case (Suc n)
  obtain r w1 where a: "counter_attempt k c w = (r, w1)" by (cases "counter_attempt k c w")
  show ?case
  proof (cases r)
    case (Inr ok)
    with a Suc.prems have "rep = Json 200 ok" "w' = w1" by auto
    with a Inr show ?thesis by blast
  next
    case (Inl err)
    with a have fr: "\<And>k'. collection k' w1 = collection k' w"
      by (auto dest: attempt_failed)
    show ?thesis
    proof (cases "n = 0")
      case True
      with a Inl Suc.prems have "rep = Json 500 (error500 msg err)" "w' = w1" by auto
      with fr show ?thesis by auto
    next
      case False
      with a Inl Suc.prems
      have "retry_loop (counter_attempt k c) msg n (setTimeout 1000 w1) = (rep, w')" by auto
      from Suc.IH [OF this] fr show ?thesis by auto
    qed
  qed
qed

lemma retry_loop_two:
  "retry_loop body msg 2 w =
     (case body w of
        (Inr ok, w1) \<Rightarrow> (Json 200 ok, w1)
      | (Inl e1, w1) \<Rightarrow>
          (case body (setTimeout 1000 w1) of
             (Inr ok, w2) \<Rightarrow> (Json 200 ok, w2)
           | (Inl e2, w2) \<Rightarrow> (Json 500 (error500 msg e2), w2)))"
  by (simp add: numeral_2_eq_2 split: prod.splits sum.splits)

lemma attempt_timers: "timers (snd (counter_attempt k c w)) = timers w"
  by (cases c; cases k)
     (auto simp: counter_attempt_def get_attempt_def increment_attempt_def reset_attempt_def
        findOne_def save_counter_def new_counter_def pop_failure_def set_collection_def Let_def
        split: list.splits option.splits)

section \<open>Counters: the retry loop\<close>

text \<open>
  Claim C1, as amended. For each of the six counter routes the read-modify-write sequence
  is attempted at most twice in all: if the first attempt succeeds, its body is the reply
  and nothing is waited for; if it fails, the handler waits 1000 ms and makes one more
  attempt; if that one succeeds its body is the reply, and if it fails too the reply is
  HTTP 500 with \<open>success: false\<close>, the error text of that route and, as \<open>details\<close>, the
  message of the last failure. There is no third attempt. The six error texts are
  pairwise distinct.
\<close>

theorem counter_route_retries_once:
  "counter_route k c w =
     (case counter_attempt k c w of
        (Inr ok, w1) \<Rightarrow> (Json 200 ok, w1)
      | (Inl e1, w1) \<Rightarrow>
          (case counter_attempt k c (setTimeout 1000 w1) of
             (Inr ok, w2) \<Rightarrow> (Json 200 ok, w2)
           | (Inl e2, w2) \<Rightarrow>
               (Json 500 (JObj [(''success'', JBool False), (''error'', JStr (counter_error k c)),
                                (''details'', JStr e2)]), w2)))
   \<and> timers (snd (counter_route k c w)) =
       (if \<exists>ok w1. counter_attempt k c w = (Inr ok, w1) then timers w else timers w @ [1000])
   \<and> distinct [counter_error k' c'. k' \<leftarrow> [Visitor, QuestionRequest], c' \<leftarrow> [Get, Increment, Reset]]"
proof -
  have unfold: "counter_route k c w =
     (case counter_attempt k c w of
        (Inr ok, w1) \<Rightarrow> (Json 200 ok, w1)
      | (Inl e1, w1) \<Rightarrow>
          (case counter_attempt k c (setTimeout 1000 w1) of
             (Inr ok, w2) \<Rightarrow> (Json 200 ok, w2)
           | (Inl e2, w2) \<Rightarrow>
               (Json 500 (JObj [(''success'', JBool False), (''error'', JStr (counter_error k c)),
                                (''details'', JStr e2)]), w2)))"
    by (simp add: counter_route_def retry_loop_two error500_def split: prod.splits sum.splits)
  obtain r w1 where a: "counter_attempt k c w = (r, w1)" by (cases "counter_attempt k c w")
  have t1: "timers w1 = timers w" using attempt_timers [of k c w] a by simp
  have tm: "timers (snd (counter_route k c w)) =
       (if \<exists>ok w1. counter_attempt k c w = (Inr ok, w1) then timers w else timers w @ [1000])"
  proof (cases r)
    case (Inr ok)
    then show ?thesis using a t1 by (simp add: unfold)
  next
    case (Inl e1)
    obtain r2 w2 where b: "counter_attempt k c (setTimeout 1000 w1) = (r2, w2)"
      by (cases "counter_attempt k c (setTimeout 1000 w1)")
    have "timers w2 = timers w @ [1000]"
      using attempt_timers [of k c "setTimeout 1000 w1"] b t1 by (simp add: setTimeout_def)
    then show ?thesis using a b Inl by (cases r2) (simp_all add: unfold)
  qed
  have "distinct [counter_error k' c'. k' \<leftarrow> [Visitor, QuestionRequest], c' \<leftarrow> [Get, Increment, Reset]]"
    by (simp add: counter_error_def)
  with unfold tm show ?thesis by blast
qed

theorem counter_route_retries_once_witness:
  "counter_route Visitor Increment one_visitor =
     (Json 200 (JObj [(''success'', JBool True), (''count'', JNum 42),
                      (''lastUpdated'', JDate 1000)]),
      empty_world\<lparr>visitorCounters := [\<lparr>oid = 0, count = 42, lastUpdated = 1000\<rparr>],
        next_oid := 1, clock := 1000, timers := [1000]\<rparr>)"
proof -
  have a: "counter_attempt Visitor Increment one_visitor =
      (Inl ''timeout'', one_visitor\<lparr>failures := []\<rparr>)"
    by (simp add: counter_attempt_def increment_attempt_def findOne_def pop_failure_def
        one_visitor_def empty_world_def)
  have b: "counter_attempt Visitor Increment (setTimeout 1000 (one_visitor\<lparr>failures := []\<rparr>)) =
      (Inr (JObj [(''success'', JBool True), (''count'', JNum 42), (''lastUpdated'', JDate 1000)]),
       empty_world\<lparr>visitorCounters := [\<lparr>oid = 0, count = 42, lastUpdated = 1000\<rparr>],
         next_oid := 1, clock := 1000, timers := [1000]\<rparr>)"
    by (simp add: counter_attempt_def increment_attempt_def findOne_def save_counter_def
        pop_failure_def setTimeout_def collection_def set_collection_def count_body_def
        one_visitor_def empty_world_def Let_def)
  from counter_route_retries_once [of Visitor Increment one_visitor] show ?thesis
    by (simp add: a b)
qed

text \<open>
  Claim C1 as stated fails. With storage that fails twice and would then work, the
  increment route of the visitor counter answers 500 after a single wait, where the
  policy of three attempts succeeds at its third.
\<close>

theorem three_attempts_counterexample:
  "counter_route Visitor Increment twice_down =
     (Json 500 (JObj [(''success'', JBool False),
                      (''error'', JStr ''Khong the cap nhat so luot truy cap''),
                      (''details'', JStr ''timeout'')]),
      empty_world\<lparr>clock := 1000, timers := [1000]\<rparr>)
   \<and> fst (spec_counter_route Visitor Increment twice_down) =
       Json 200 (JObj [(''success'', JBool True), (''count'', JNum 1), (''lastUpdated'', JDate 2000)])"
  by (simp add: counter_route_def retry_loop_two spec_counter_route_def twice_down_def empty_world_def
      counter_attempt_def increment_attempt_def findOne_def save_counter_def new_counter_def
      pop_failure_def setTimeout_def collection_def set_collection_def counter_error_def error500_def
      count_body_def)

section \<open>Counters: reset, then get\<close>

text \<open>
  Claim C8. For either counter kind and any starting state, whatever storage failures are
  scheduled: when a reset is answered with success and the get that follows it at once
  is answered with success, the \<open>count\<close> in the reply of the get is 0.
\<close>

theorem reset_then_get_zero:
  assumes "fst (counter_route k Reset w) = Json 200 b1"
    and "fst (counter_route k Get (snd (counter_route k Reset w))) = Json 200 b2"
  shows "field ''count'' b2 = Some (JNum 0)"
proof -
  obtain w1 where r: "counter_route k Reset w = (Json 200 b1, w1)"
    using assms(1) by (cases "counter_route k Reset w") simp
  obtain w2 where g: "counter_route k Get w1 = (Json 200 b2, w2)"
    using assms(2) r by (cases "counter_route k Get w1") simp
  from r obtain v where "counter_attempt k Reset v = (Inr b1, w1)"
    unfolding counter_route_def by (auto dest!: retry_loop_result)
  from attempt_ok [OF this]
  obtain d ds where c1: "collection k w1 = d # ds" "count d = 0"
    by auto
  from g obtain v' where v': "\<forall>k'. collection k' v' = collection k' w1"
      "counter_attempt k Get v' = (Inr b2, w2)"
    unfolding counter_route_def by (auto dest!: retry_loop_result)
  from attempt_ok [OF v'(2)] v'(1) c1 show ?thesis
    by auto
qed

theorem reset_then_get_zero_witness:
  "fst (counter_route Visitor Reset one_visitor) =
     Json 200 (JObj [(''success'', JBool True), (''message'', JStr ''Da reset so luot truy cap ve 0''),
                     (''count'', JNum 0)])
   \<and> fst (counter_route Visitor Get (snd (counter_route Visitor Reset one_visitor))) =
     Json 200 (JObj [(''success'', JBool True), (''count'', JNum 0), (''lastUpdated'', JDate 1000)])
   \<and> field ''count'' (JObj [(''success'', JBool True), (''count'', JNum 0), (''lastUpdated'', JDate 1000)])
       = Some (JNum 0)"
proof -
  have r: "counter_route Visitor Reset one_visitor =
     (Json 200 (JObj [(''success'', JBool True), (''message'', JStr ''Da reset so luot truy cap ve 0''),
                     (''count'', JNum 0)]),
      empty_world\<lparr>visitorCounters := [\<lparr>oid = 0, count = 0, lastUpdated = 1000\<rparr>],
        next_oid := 1, clock := 1000, timers := [1000]\<rparr>)"
    by (simp add: counter_route_def retry_loop_two one_visitor_def empty_world_def
      counter_attempt_def reset_attempt_def findOne_def save_counter_def new_counter_def
      pop_failure_def setTimeout_def collection_def set_collection_def counter_error_def error500_def
      reset_body_def reset_message_def)
  have "fst (counter_route Visitor Get
      (empty_world\<lparr>visitorCounters := [\<lparr>oid = 0, count = 0, lastUpdated = 1000\<rparr>],
        next_oid := 1, clock := 1000, timers := [1000]\<rparr>)) =
     Json 200 (JObj [(''success'', JBool True), (''count'', JNum 0), (''lastUpdated'', JDate 1000)])"
    by (simp add: counter_route_def retry_loop_two empty_world_def
      counter_attempt_def get_attempt_def findOne_def save_counter_def new_counter_def
      pop_failure_def setTimeout_def collection_def set_collection_def counter_error_def error500_def
      count_body_def)
  then have g: "fst (counter_route Visitor Get (snd (counter_route Visitor Reset one_visitor))) =
     Json 200 (JObj [(''success'', JBool True), (''count'', JNum 0), (''lastUpdated'', JDate 1000)])"
    by (simp only: r snd_conv)
  have r1: "fst (counter_route Visitor Reset one_visitor) =
     Json 200 (JObj [(''success'', JBool True), (''message'', JStr ''Da reset so luot truy cap ve 0''),
                     (''count'', JNum 0)])"
    by (simp add: r)
  from reset_then_get_zero [OF r1 g] r1 g show ?thesis by simp
qed

section \<open>Counters: at most one document of each kind\<close>

lemma route_collection:
  assumes "counter_route k0 c w = (rep, w')"
  shows "collection k w' = collection k w
       \<or> (k = k0 \<and> (\<exists>b. rep = Json 200 b) \<and>
          ((collection k w = [] \<and> (\<exists>d. collection k w' = [d]))
           \<or> (\<exists>d ds d'. collection k w = d # ds \<and> collection k w' = d' # ds \<and> oid d' = oid d)))"
proof -
  from assms have "retry_loop (counter_attempt k0 c) (counter_error k0 c) 2 w = (rep, w')"
    by (simp add: counter_route_def)
  from retry_loop_result [OF this]
  consider (ok) w1 b where "\<forall>k'. collection k' w1 = collection k' w"
      "counter_attempt k0 c w1 = (Inr b, w')" "rep = Json 200 b"
    | (same) "\<forall>k'. collection k' w' = collection k' w"
    by blast
  then show ?thesis
  proof cases
    case ok
    show ?thesis
    proof (cases "k = k0")
      case True
      with attempt_ok [OF ok(2)] ok(1,3) show ?thesis by auto
    next
      case False
      with attempt_other_kind [OF ok(2), of k] ok(1) show ?thesis by simp
    qed
  next
    case same
    then show ?thesis by simp
  qed
qed

lemma route_ok_nonempty:
  assumes "counter_route k c w = (Json 200 b, w')"
  shows "collection k w' \<noteq> []"
proof -
  from assms have "retry_loop (counter_attempt k c) (counter_error k c) 2 w = (Json 200 b, w')"
    by (simp add: counter_route_def)
  from retry_loop_result [OF this]
  obtain w1 where "counter_attempt k c w1 = (Inr b, w')" by auto
  from attempt_ok [OF this] show ?thesis by auto
qed

lemma initialize_collection:
  "collection k (initializeCounter k0 w) = collection k w
   \<or> (k = k0 \<and> collection k w = [] \<and> (\<exists>d. collection k (initializeCounter k0 w) = [d]))"
proof -
  obtain r1 w1 where f: "findOne k0 w = (r1, w1)" by (cases "findOne k0 w")
  note f1 = findOne_cases [OF f]
  let ?d = "\<lparr>oid = next_oid w1, count = 0, lastUpdated = clock w1\<rparr>"
  let ?w = "w1\<lparr>next_oid := next_oid w1 + 1\<rparr>"
  obtain r2 w2 where s: "save_counter k0 True ?d ?w = (r2, w2)"
    by (cases "save_counter k0 True ?d ?w")
  consider (err) e where "r1 = Inl e" | (found) c where "r1 = Inr (Some c)"
    | (absent) "r1 = Inr None" "collection k0 w = []"
    using f1(2) by (cases "collection k0 w") auto
  then show ?thesis
  proof cases
    case err
    then show ?thesis using f f1(1)[of k] by (simp add: initializeCounter_def)
  next
    case found
    then show ?thesis using f f1(1)[of k] by (simp add: initializeCounter_def)
  next
    case absent
    have i: "initializeCounter k0 w = w2"
      using f s absent by (simp add: initializeCounter_def new_counter_def)
    from save_counter_cases [OF s] have
      "collection k w2 = collection k ?w \<or> (k = k0 \<and> collection k w2 = collection k0 ?w @ [?d])"
      by (cases "k = k0") auto
    then show ?thesis
      using i f1(1)[of k] f1(1)[of k0] absent(2) by auto
  qed
qed

lemma exec_collection:
  "collection k (exec s w) = collection k w
   \<or> (collection k w = [] \<and> (\<exists>d. collection k (exec s w) = [d]))
   \<or> (\<exists>d ds d'. collection k w = d # ds \<and> collection k (exec s w) = d' # ds \<and> oid d' = oid d)"
proof (cases s)
  case (Call k0 c)
  obtain rep w' where r: "counter_route k0 c w = (rep, w')" by (cases "counter_route k0 c w")
  from route_collection [OF r, of k] r Call show ?thesis
    by (auto simp: exec_def)
next
  case (Initialize k0)
  with initialize_collection [of k k0 w] show ?thesis
    by (auto simp: exec_def)
qed

lemma exec_at_most_one:
  "length (collection k w) \<le> 1 \<Longrightarrow> length (collection k (exec s w)) \<le> 1"
  using exec_collection [of k s w] by auto

lemma run_at_most_one:
  "length (collection k w) \<le> 1 \<Longrightarrow> length (collection k (run ops w)) \<le> 1"
proof (induction ops arbitrary: w)
  case Nil
  then show ?case by simp
next
  case (Cons s ops)
  from Cons.prems have "length (collection k (exec s w)) \<le> 1"
    by (rule exec_at_most_one)
  then have "length (collection k (run ops (exec s w))) \<le> 1"
    by (rule Cons.IH)
  then show ?case by simp
qed

text \<open>
  Claim C2. Take either counter kind and a state with no counter document of that kind,
  and run any sequence of get, increment and reset calls on either kind (and of the
  start-up initialisers), under any schedule of storage failures. Then at most one
  document of that kind exists afterwards; a call on that kind that is answered with
  success leaves exactly one (so the first such call creates it); and once there is one
  document, every further step leaves one document with the same id: the existing
  document is read and updated, and no other is created.
\<close>

theorem at_most_one_counter:
  assumes "collection k w0 = []"
  shows "length (collection k (run ops w0)) \<le> 1
       \<and> (\<forall>c b. fst (counter_route k c (run ops w0)) = Json 200 b \<longrightarrow>
             length (collection k (snd (counter_route k c (run ops w0)))) = 1)
       \<and> (\<forall>d s. collection k (run ops w0) = [d] \<longrightarrow>
             map oid (collection k (exec s (run ops w0))) = [oid d])"
proof -
  let ?w = "run ops w0"
  have le: "length (collection k ?w) \<le> 1"
    by (rule run_at_most_one) (simp add: assms)
  have one: "length (collection k (snd (counter_route k c ?w))) = 1"
    if ok: "fst (counter_route k c ?w) = Json 200 b" for c b
  proof -
    obtain w' where r: "counter_route k c ?w = (Json 200 b, w')"
      using ok by (cases "counter_route k c ?w") simp
    have "length (collection k (exec (Call k c) ?w)) \<le> 1"
      using le by (rule exec_at_most_one)
    with route_ok_nonempty [OF r] r show ?thesis
      by (cases "collection k w'") (simp_all add: exec_def)
  qed
  have same: "map oid (collection k (exec s ?w)) = [oid d]" if "collection k ?w = [d]" for d s
    using exec_collection [of k s ?w] that by auto
  from le one same show ?thesis by blast
qed

theorem at_most_one_counter_witness:
  "collection Visitor empty_world = []
   \<and> collection Visitor (run some_calls empty_world) = [\<lparr>oid = 0, count = 1, lastUpdated = 0\<rparr>]
   \<and> length (collection Visitor (run some_calls empty_world)) \<le> 1"
proof -
  have h: "collection Visitor empty_world = []"
    by (simp add: collection_def empty_world_def)
  have "collection Visitor (run some_calls empty_world) = [\<lparr>oid = 0, count = 1, lastUpdated = 0\<rparr>]"
    by (simp add: some_calls_def exec_def initializeCounter_def counter_route_def retry_loop_two empty_world_def
      counter_attempt_def get_attempt_def increment_attempt_def reset_attempt_def findOne_def
      save_counter_def new_counter_def
      pop_failure_def setTimeout_def collection_def set_collection_def counter_error_def error500_def
      Let_def)
  with h at_most_one_counter [OF h, of some_calls] show ?thesis by simp
qed

section \<open>Rejected uploads\<close>

text \<open>
  Claim C3, as amended. For every multipart upload whose declared mime type is none of
  image/jpeg, image/png, image/gif and image/webp, the upload middleware rejects the
  request with the error \<open>Only image files are allowed\<close> before anything happens: the
  world is unchanged, so no file is written to the upload directory and no gallery record
  is created. The error is handed to \<^verbatim>\<open>next\<close>; the route handler, which holds the only
  400 replies of this route, does not run, and the client sees the status of the
  framework's final handler, 500.
\<close>

theorem unsupported_mime_rejected:
  assumes "upfile r = Some f"
    and "mimetype f \<notin> {''image/jpeg'', ''image/png'', ''image/gif'', ''image/webp''}"
  shows "post_api_carousel_upload r w = (NextErr ''Only image files are allowed'', w)
       \<and> http_status (NextErr ''Only image files are allowed'') = Some 500
       \<and> (meth r = POST \<and> resource r = ApiCarouselUpload \<and> isMongoReady w \<longrightarrow>
            app E r w = (NextErr ''Only image files are allowed'', w))"
proof -
  have f: "fileFilter f = Inl ''Only image files are allowed''"
    using assms(2) by (simp add: fileFilter_def allowedMimes_def)
  have u: "post_api_carousel_upload r w = (NextErr ''Only image files are allowed'', w)"
    using assms(1) f by (simp add: post_api_carousel_upload_def upload_single_def)
  have "app E r w = (NextErr ''Only image files are allowed'', w)"
    if "meth r = POST" "resource r = ApiCarouselUpload" "isMongoReady w"
    using that u assms(1)
    by (simp add: app_def cors_def body_parsers_def serve_static_def route_def
        split: option.splits)
  with u show ?thesis by (simp add: http_status_def)
qed

theorem unsupported_mime_rejected_witness:
  "upfile pdf_upload = Some \<lparr>mimetype = ''application/pdf'', originalname = ''a.pdf'', extname = ''.pdf'',
                      bytes = [37, 80, 68, 70]\<rparr>
   \<and> ''application/pdf'' \<notin> {''image/jpeg'', ''image/png'', ''image/gif'', ''image/webp''}
   \<and> app env0 pdf_upload empty_world = (NextErr ''Only image files are allowed'', empty_world)"
proof -
  let ?f = "\<lparr>mimetype = ''application/pdf'', originalname = ''a.pdf'', extname = ''.pdf'',
                      bytes = [37, 80, 68, 70]\<rparr>"
  have a: "upfile pdf_upload = Some ?f"
    by (simp add: pdf_upload_def get_root_def)
  have b: "mimetype ?f \<notin> {''image/jpeg'', ''image/png'', ''image/gif'', ''image/webp''}"
    by simp
  have c: "meth pdf_upload = POST \<and> resource pdf_upload = ApiCarouselUpload \<and> isMongoReady empty_world"
    by (simp add: pdf_upload_def get_root_def isMongoReady_def empty_world_def)
  from unsupported_mime_rejected [OF a b, of empty_world env0] a b c show ?thesis by simp
qed

text \<open>
  Claim C3 as stated fails: an upload declared as application/pdf is not answered
  with 400.
\<close>

theorem unsupported_mime_400_counterexample:
  "fst (app env0 pdf_upload empty_world) = NextErr ''Only image files are allowed''
   \<and> http_status (fst (app env0 pdf_upload empty_world)) = Some 500
   \<and> http_status (fst (app env0 pdf_upload empty_world)) \<noteq> Some 400"
  by (simp add: app_def cors_def body_parsers_def serve_static_def route_def
      post_api_carousel_upload_def upload_single_def
      fileFilter_def allowedMimes_def http_status_def pdf_upload_def get_root_def env0_def
      isMongoReady_def empty_world_def)

section \<open>The connection check\<close>

text \<open>
  Claim C7, as amended. When the storage connection is not ready, no request changes the
  world and no route handler runs. The request is answered by the first of these that
  applies: an OPTIONS request gets the 204 of the CORS middleware; a request whose body
  the body parsers reject gets their error with its status; a GET or HEAD that the
  static-file middleware resolves gets what that middleware sends; every other request
  gets 503 with the body \<open>{success: false, error: Database not connected, message:
  Please try again in a few moments}\<close>. A request that is neither GET nor HEAD is never
  answered by the static-file middleware.
\<close>

theorem not_ready_unavailable:
  assumes "\<not> isMongoReady w"
  shows "snd (app E r w) = w
       \<and> (meth r = OPTIONS \<longrightarrow> fst (app E r w) = Bare 204)
       \<and> (\<forall>a. meth r \<noteq> OPTIONS \<and> body_parsers r = Some a \<longrightarrow> fst (app E r w) = a)
       \<and> (\<forall>f. meth r \<noteq> OPTIONS \<and> body_parsers r = None \<and> serve_static E r w = Some f \<longrightarrow>
             fst (app E r w) = f)
       \<and> (meth r \<noteq> OPTIONS \<and> body_parsers r = None \<and> serve_static E r w = None \<longrightarrow>
             fst (app E r w) =
               Json 503 (JObj [(''success'', JBool False),
                               (''error'', JStr ''Database not connected''),
                               (''message'', JStr ''Please try again in a few moments'')]))
       \<and> (meth r \<noteq> GET \<and> meth r \<noteq> HEAD \<longrightarrow> serve_static E r w = None)
       \<and> (\<forall>n m. body_parsers r = Some (HttpError n m) \<longleftrightarrow>
             body_error r = Some (n, m) \<and> upfile r = None)"
proof -
  have unchanged: "snd (app E r w) = w"
    using assms by (simp add: app_def split: option.splits)
  have static: "serve_static E r w = None" if "meth r \<noteq> GET" "meth r \<noteq> HEAD"
    using that by (simp add: serve_static_def)
  have parsers: "body_parsers r = Some (HttpError n m) \<longleftrightarrow>
      body_error r = Some (n, m) \<and> upfile r = None" for n m
    by (auto simp: body_parsers_def split: option.splits)
  show ?thesis
    using assms unchanged static parsers
    by (auto simp: app_def cors_def not_connected_def split: option.splits)
qed

theorem not_ready_unavailable_witness:
  "\<not> isMongoReady down_world
   \<and> app env0 png_upload down_world =
       (Json 503 (JObj [(''success'', JBool False), (''error'', JStr ''Database not connected''),
                        (''message'', JStr ''Please try again in a few moments'')]), down_world)
   \<and> app env0 preflight down_world = (Bare 204, down_world)
   \<and> app env0 bad_json down_world =
       (HttpError 400 ''Unexpected end of JSON input'', down_world)
   \<and> app site_env head_root down_world = (File ''index.html'', down_world)"
proof -
  have a: "\<not> isMongoReady down_world"
    by (simp add: isMongoReady_def down_world_def empty_world_def)
  have p1: "meth png_upload \<noteq> OPTIONS \<and> body_parsers png_upload = None
      \<and> serve_static env0 png_upload down_world = None"
    by (simp add: body_parsers_def serve_static_def png_upload_def get_root_def)
  have p2: "meth preflight = OPTIONS"
    by (simp add: preflight_def get_root_def)
  have p3: "meth bad_json \<noteq> OPTIONS
      \<and> body_parsers bad_json = Some (HttpError 400 ''Unexpected end of JSON input'')"
    by (simp add: body_parsers_def bad_json_def get_root_def)
  have p4: "meth head_root \<noteq> OPTIONS \<and> body_parsers head_root = None
      \<and> serve_static site_env head_root down_world = Some (File ''index.html'')"
    by (simp add: body_parsers_def serve_static_def head_root_def get_root_def site_env_def
        env0_def)
  from not_ready_unavailable [OF a, of env0 png_upload] p1
  have r1: "app env0 png_upload down_world =
       (Json 503 (JObj [(''success'', JBool False), (''error'', JStr ''Database not connected''),
                        (''message'', JStr ''Please try again in a few moments'')]), down_world)"
    by (cases "app env0 png_upload down_world") simp
  from not_ready_unavailable [OF a, of env0 preflight] p2
  have r2: "app env0 preflight down_world = (Bare 204, down_world)"
    by (cases "app env0 preflight down_world") simp
  from not_ready_unavailable [OF a, of env0 bad_json] p3
  have r3: "app env0 bad_json down_world =
       (HttpError 400 ''Unexpected end of JSON input'', down_world)"
    by (cases "app env0 bad_json down_world") simp
  from not_ready_unavailable [OF a, of site_env head_root] p4
  have r4: "app site_env head_root down_world = (File ''index.html'', down_world)"
    by (cases "app site_env head_root down_world") simp
  from a r1 r2 r3 r4 show ?thesis
    by simp
qed

text \<open>
  Claim C7 as stated fails for the route \<^verbatim>\<open>GET /\<close>: with \<^verbatim>\<open>index.html\<close> in the
  application directory the static-file middleware, registered before the check, sends
  the file although storage is not ready.
\<close>

theorem static_before_check_counterexample:
  "\<not> isMongoReady down_world
   \<and> app site_env get_root down_world = (File ''index.html'', down_world)"
  by (simp add: app_def cors_def body_parsers_def serve_static_def site_env_def env0_def
      get_root_def isMongoReady_def down_world_def empty_world_def)

section \<open>Uploads when saving the gallery record fails\<close>

lemma not_in_unlinked [simp]: "name \<notin> fst ` set (filter (\<lambda>p. fst p \<noteq> name) fs)"
  by auto

lemma or_str_Untitled [simp]: "or_str t ''Untitled'' \<noteq> []"
  by (simp add: or_str_def split: option.splits)

lemma or_str_Some [simp]: "s \<noteq> [] \<Longrightarrow> or_str (Some s) d = s"
  by (simp add: or_str_def)

lemma upload_validation [simp]:
  "image_validation \<lparr>iid = i, ititle = or_str t ''Untitled'', imageUrl = c # cs,
     alt = a, order = n, icreatedAt = t'\<rparr> = None"
  by (simp add: image_validation_def)

text \<open>
  Claim C5. Multipart upload: when the file has been written and saving the gallery
  record then fails with message \<open>e\<close>, the reply is 400 with \<open>e\<close>, no record is added,
  and the handler unlinks the file it was given; the file is gone afterwards unless the
  unlink itself fails (\<open>u\<close> is its outcome), in which case the error is swallowed and the
  reply is the same. Base64 upload: under the same failure of the save the reply is 400
  with the message, no record is added, no unlink is attempted (the next entry of the
  failure schedule is not consumed) and the file that was written is still there.
\<close>

theorem upload_cleanup_asymmetry:
  "(upfile r = Some f \<and> mimetype f \<in> set allowedMimes \<and> failures w = None # Some e # u # fs \<longrightarrow>
      fst (post_api_carousel_upload r w) = Json 400 (JObj [(''error'', JStr e)])
      \<and> carouselImages (snd (post_api_carousel_upload r w)) = carouselImages w
      \<and> file_exists (storage_filename r f w) (snd (post_api_carousel_upload r w)) = (u \<noteq> None)
      \<and> failures (snd (post_api_carousel_upload r w)) = fs)
   \<and> (b_imageData r' = Some s \<and> s \<noteq> [] \<and> failures w' = None # Some e' # fs' \<longrightarrow>
      fst (post_api_carousel_upload_base64 E r' w') = Json 400 (JObj [(''error'', JStr e')])
      \<and> carouselImages (snd (post_api_carousel_upload_base64 E r' w')) = carouselImages w'
      \<and> file_exists (base64_filename r' w') (snd (post_api_carousel_upload_base64 E r' w'))
      \<and> failures (snd (post_api_carousel_upload_base64 E r' w')) = fs')"
proof -
  have multipart: "fst (post_api_carousel_upload r w) = Json 400 (JObj [(''error'', JStr e)])
      \<and> carouselImages (snd (post_api_carousel_upload r w)) = carouselImages w
      \<and> file_exists (storage_filename r f w) (snd (post_api_carousel_upload r w)) = (u \<noteq> None)
      \<and> failures (snd (post_api_carousel_upload r w)) = fs"
    if "upfile r = Some f" "mimetype f \<in> set allowedMimes" "failures w = None # Some e # u # fs"
    using that
    by (cases u)
       (auto simp: post_api_carousel_upload_def upload_single_def fileFilter_def writeFile_def
         pop_failure_def carousel_upload_handler_def new_image_def save_image_def unlink_def Let_def
         file_exists_def)
  have base64: "fst (post_api_carousel_upload_base64 E r' w') = Json 400 (JObj [(''error'', JStr e')])
      \<and> carouselImages (snd (post_api_carousel_upload_base64 E r' w')) = carouselImages w'
      \<and> file_exists (base64_filename r' w') (snd (post_api_carousel_upload_base64 E r' w'))
      \<and> failures (snd (post_api_carousel_upload_base64 E r' w')) = fs'"
    if "b_imageData r' = Some s" "s \<noteq> []" "failures w' = None # Some e' # fs'"
    using that
    by (simp add: post_api_carousel_upload_base64_def writeFile_def
         pop_failure_def new_image_def save_image_def Let_def file_exists_def)
  from multipart base64 show ?thesis by blast
qed

theorem upload_cleanup_asymmetry_witness:
  "fst (post_api_carousel_upload png_upload save_fails) = Json 400 (JObj [(''error'', JStr ''insert failed'')])
   \<and> uploads (snd (post_api_carousel_upload png_upload save_fails)) = []
   \<and> fst (post_api_carousel_upload_base64 env0 base64_upload save_fails)
        = Json 400 (JObj [(''error'', JStr ''insert failed'')])
   \<and> uploads (snd (post_api_carousel_upload_base64 env0 base64_upload save_fails))
        = [(''base64-0-0.png'', [36])]"
proof -
  let ?f = "\<lparr>mimetype = ''image/png'', originalname = ''a.png'', extname = ''.png'',
                      bytes = [137, 80, 78, 71]\<rparr>"
  have a: "upfile png_upload = Some ?f \<and> mimetype ?f \<in> set allowedMimes
      \<and> failures save_fails = None # Some ''insert failed'' # None # []"
    by (simp add: png_upload_def get_root_def allowedMimes_def save_fails_def empty_world_def)
  have b: "b_imageData base64_upload = Some ''data:application/pdf;base64,JVBERg==''
      \<and> ''data:application/pdf;base64,JVBERg=='' \<noteq> []
      \<and> failures save_fails = None # Some ''insert failed'' # [None]"
    by (simp add: base64_upload_def get_root_def save_fails_def empty_world_def)
  have n: "storage_filename png_upload ?f save_fails = ''0-0.png''"
    by (simp add: storage_filename_def png_upload_def get_root_def save_fails_def empty_world_def
        string_of_nat.simps digit_def)
  have u1: "uploads (snd (post_api_carousel_upload png_upload save_fails)) = []"
    by (simp add: post_api_carousel_upload_def upload_single_def fileFilter_def writeFile_def
         pop_failure_def carousel_upload_handler_def new_image_def save_image_def unlink_def Let_def
         png_upload_def get_root_def allowedMimes_def save_fails_def empty_world_def
         image_validation_def storage_filename_def string_of_nat.simps digit_def or_str_def
         or_num_def)
  have u2: "uploads (snd (post_api_carousel_upload_base64 env0 base64_upload save_fails))
        = [(''base64-0-0.png'', [36])]"
    by (simp add: post_api_carousel_upload_base64_def or_str_def writeFile_def
         pop_failure_def new_image_def save_image_def Let_def base64_filename_def
         base64_upload_def get_root_def save_fails_def empty_world_def env0_def
         string_of_nat.simps digit_def strip_data_uri_def is_word_def image_validation_def
         or_num_def)
  from upload_cleanup_asymmetry [where r = png_upload and f = ?f and w = save_fails
      and e = "''insert failed''" and u = None and fs = "[]" and r' = base64_upload
      and s = "''data:application/pdf;base64,JVBERg==''" and w' = save_fails
      and e' = "''insert failed''" and fs' = "[None]" and E = env0] a b u1 u2
  show ?thesis by simp
qed

section \<open>Base64 uploads are not validated\<close>

text \<open>
  Claim C10. For every request whose \<open>imageData\<close> is a non-empty string, whatever the
  string is, with or without a \<open>data:image/..;base64,\<close> prefix: when neither the file
  write nor the save fails, the bytes decoded from the string (after the prefix, if it has
  one, is stripped) are written to the file \<open>base64-<clock>-<random>.png\<close> of the upload
  directory, a gallery record with \<open>imageUrl\<close> \<open>/uploads/<that name>\<close> is appended, and
  the reply is the success body with that record. No mime type is consulted on this path:
  the filter with the four image types belongs to the multipart middleware only. The
  witness uploads a data URI declared as application/pdf.
\<close>

theorem base64_upload_unvalidated:
  assumes "b_imageData r = Some s" and "s \<noteq> []"
    and "list_all (\<lambda>f. f = None) (take 2 (failures w))"
  shows "post_api_carousel_upload_base64 E r w =
           (Json 200 (uploaded_body
              \<lparr>iid = next_oid w, ititle = or_str (b_title r) ''Untitled'',
               imageUrl = ''/uploads/'' @ base64_filename r w, alt = or_str (b_alt r) [],
               order = or_num (b_order r) 0, icreatedAt = clock w\<rparr>),
            w\<lparr>uploads := (base64_filename r w, fromBase64 E (strip_data_uri s))
                           # filter (\<lambda>p. fst p \<noteq> base64_filename r w) (uploads w),
              carouselImages := carouselImages w @
                [\<lparr>iid = next_oid w, ititle = or_str (b_title r) ''Untitled'',
                  imageUrl = ''/uploads/'' @ base64_filename r w, alt = or_str (b_alt r) [],
                  order = or_num (b_order r) 0, icreatedAt = clock w\<rparr>],
              next_oid := next_oid w + 1,
              failures := drop 2 (failures w)\<rparr>)
       \<and> base64_filename r w =
           ''base64-'' @ string_of_nat (clock w) @ ''-'' @ string_of_nat (rnd r) @ ''.png''"
proof -
  consider "failures w = []" | "failures w = [None]" | fs where "failures w = None # None # fs"
    using assms(3) by (cases "failures w"; cases "tl (failures w)") auto
  then have "post_api_carousel_upload_base64 E r w =
           (Json 200 (uploaded_body
              \<lparr>iid = next_oid w, ititle = or_str (b_title r) ''Untitled'',
               imageUrl = ''/uploads/'' @ base64_filename r w, alt = or_str (b_alt r) [],
               order = or_num (b_order r) 0, icreatedAt = clock w\<rparr>),
            w\<lparr>uploads := (base64_filename r w, fromBase64 E (strip_data_uri s))
                           # filter (\<lambda>p. fst p \<noteq> base64_filename r w) (uploads w),
              carouselImages := carouselImages w @
                [\<lparr>iid = next_oid w, ititle = or_str (b_title r) ''Untitled'',
                  imageUrl = ''/uploads/'' @ base64_filename r w, alt = or_str (b_alt r) [],
                  order = or_num (b_order r) 0, icreatedAt = clock w\<rparr>],
              next_oid := next_oid w + 1,
              failures := drop 2 (failures w)\<rparr>)"
    using assms(1,2)
    by cases
       (simp_all add: post_api_carousel_upload_base64_def writeFile_def
         pop_failure_def new_image_def save_image_def Let_def)
  then show ?thesis
    by (simp add: base64_filename_def)
qed

theorem base64_upload_unvalidated_witness:
  "b_imageData base64_upload = Some ''data:application/pdf;base64,JVBERg==''
   \<and> list_all (\<lambda>f. f = None) (take 2 (failures empty_world))
   \<and> fst (post_api_carousel_upload_base64 env0 base64_upload empty_world) =
       Json 200 (JObj [(''success'', JBool True), (''message'', JStr ''Image uploaded successfully''),
         (''data'', JObj [(''_id'', JId 0), (''title'', JStr ''Untitled''),
            (''imageUrl'', JStr ''/uploads/base64-0-0.png''), (''alt'', JStr []), (''order'', JNum 0),
            (''createdAt'', JDate 0)])])
   \<and> uploads (snd (post_api_carousel_upload_base64 env0 base64_upload empty_world)) =
       [(''base64-0-0.png'', [36])]"
proof -
  have a: "b_imageData base64_upload = Some ''data:application/pdf;base64,JVBERg==''"
    by (simp add: base64_upload_def get_root_def)
  have b: "''data:application/pdf;base64,JVBERg=='' \<noteq> []" by simp
  have c: "list_all (\<lambda>f. f = None) (take 2 (failures empty_world))"
    by (simp add: empty_world_def)
  have n: "base64_filename base64_upload empty_world = ''base64-0-0.png''"
    by (simp add: base64_filename_def base64_upload_def get_root_def empty_world_def
        string_of_nat.simps digit_def)
  have d: "strip_data_uri ''data:application/pdf;base64,JVBERg=='' = ''data:application/pdf;base64,JVBERg==''"
    by (simp add: strip_data_uri_def)
  from base64_upload_unvalidated [OF a b c, of env0] a c n d show ?thesis
    by (simp add: uploaded_body_def image_doc_def or_str_def or_num_def
        base64_upload_def get_root_def empty_world_def env0_def)
qed

end
